theory Spec2Isabelle
  imports Main
begin

section \<open>Consensus parameters and quorum selection of chainparams.cpp\<close>

text \<open>
  A shallow embedding of the runtime queries, the command-line override parsers and the
  quorum adaptation engine of \<^verbatim>\<open>src/chainparams.cpp\<close>.

  Integers: \<^verbatim>\<open>int\<close> and \<^verbatim>\<open>int64_t\<close> values are \<open>int\<close>, \<^verbatim>\<open>size_t\<close> is \<open>nat\<close>. The
  functions below only compare and copy them; the one arithmetic operation is the
  remainder of \<^verbatim>\<open>IsMiningPhase\<close>, written out as C++ computes it.

  Failures: an \<^verbatim>\<open>assert\<close> that does not hold, a remainder by zero and a thrown
  \<^verbatim>\<open>std::runtime_error\<close> are the \<open>Inl\<close> results of the functions that can reach them.
\<close>

subsection \<open>Data\<close>

datatype failure =
    assertion_failed
  | division_by_zero
  | runtime_error string

text \<open>
  The identifiers of \<^verbatim>\<open>enum LLMQType\<close> that chainparams.cpp uses. The enum is declared in
  \<^verbatim>\<open>llmq/params.h\<close>, which is not part of the sources at hand: the numeric values, and
  with them the order in which a \<^verbatim>\<open>std::map\<close> keyed by the type iterates, are a parameter
  of the model (\<open>llmq_keys\<close> below).
\<close>

datatype LLMQType =
    LLMQ_NONE
  | LLMQ_50_60
  | LLMQ_60_75
  | LLMQ_400_60
  | LLMQ_400_85
  | LLMQ_100_67
  | LLMQ_DEVNET
  | LLMQ_DEVNET_DIP0024
  | LLMQ_DEVNET_PLATFORM
  | LLMQ_TEST
  | LLMQ_TEST_INSTANTSEND
  | LLMQ_TEST_V17
  | LLMQ_TEST_DIP0024
  | LLMQ_TEST_PLATFORM

text \<open>\<^verbatim>\<open>Consensus::LLMQParams\<close>, with the fields that chainparams.cpp reads or writes.\<close>

record LLMQParams =
  type :: LLMQType
  name :: string
  useRotation :: bool
  size :: int
  minSize :: int
  threshold :: int
  dkgInterval :: int
  dkgMiningWindowStart :: int
  dkgMiningWindowEnd :: int
  dkgBadVotesThreshold :: int

text \<open>One slot of \<^verbatim>\<open>consensus.vDeployments\<close> (the field \<^verbatim>\<open>bit\<close> is \<open>bit'\<close> here).\<close>

record BIP9Deployment =
  bit' :: int
  nStartTime :: int
  nTimeout :: int
  nWindowSize :: int
  nThresholdStart :: int
  nThresholdMin :: int
  nFalloffCoeff :: int
  useEHF :: bool

text \<open>
  \<^verbatim>\<open>Consensus::Params\<close>: the deployment table (index = \<^verbatim>\<open>DeploymentPos\<close>), the quorum
  catalog (a \<^verbatim>\<open>std::map\<close> from type to record) and the four role designations. Every
  other field of the structure lives in the record's extension, so a statement about
  a \<open>Params_scheme\<close> speaks about those fields as well.
\<close>

record Params =
  vDeployments :: "BIP9Deployment list"
  llmqs :: "LLMQType \<rightharpoonup> LLMQParams"
  llmqTypeChainLocks :: LLMQType
  llmqTypeDIP0024InstantSend :: LLMQType
  llmqTypePlatform :: LLMQType
  llmqTypeMnhf :: LLMQType

text \<open>
  The four values of \<^verbatim>\<open>strNetworkID\<close> that the constructors assign
  (\<^verbatim>\<open>CBaseChainParams::MAIN\<close>, \<^verbatim>\<open>TESTNET\<close>, \<^verbatim>\<open>DEVNET\<close>, \<^verbatim>\<open>REGTEST\<close>); \<^verbatim>\<open>TESTNET\<close> is the
  string that \<^verbatim>\<open>UpdateLLMQParams\<close> compares with \<^verbatim>\<open>"test"\<close>.
\<close>

datatype Chain = MAIN | TESTNET | DEVNET | REGTEST

text \<open>
  The process state that the adaptation engine works on: the selected parameters
  (\<^verbatim>\<open>globalChainParams\<close>: its network and its \<^verbatim>\<open>consensus\<close>) and the two file-level statics.
\<close>

record 'a globals =
  strNetworkID :: Chain
  consensus :: "'a Params_scheme"
  lastCheckMnCount :: nat
  lastCheckHeight :: int

text \<open>
  Declarations that chainparams.cpp includes from headers outside the sources at hand,
  taken as parameters: the bound of \<^verbatim>\<open>versionbits.h\<close>, the deployment names of
  \<^verbatim>\<open>deploymentinfo.h\<close> (one per slot of the table), the integer parser of
  \<^verbatim>\<open>util/strencodings.h\<close>, the iteration order of the catalog and the quorum records of
  \<^verbatim>\<open>llmq/params.h\<close> that the adaptation engine installs.
\<close>

record headers =
  VERSIONBITS_NUM_BITS :: int
  VersionBitsDeploymentInfo :: "string list"
  ParseInt64 :: "string \<Rightarrow> int option"
  llmq_keys :: "LLMQType list"
  llmq_10_60 :: LLMQParams
  llmq_10_75 :: LLMQParams
  llmq_20_60 :: LLMQParams
  llmq_20_75 :: LLMQParams
  llmq_20_85 :: LLMQParams
  llmq_40_60 :: LLMQParams
  llmq_40_85 :: LLMQParams
  llmq_50_60 :: LLMQParams
  llmq_60_75 :: LLMQParams
  llmq_400_60 :: LLMQParams
  llmq_400_85 :: LLMQParams

text \<open>What the functions write with \<^verbatim>\<open>LogPrintf\<close>, one constructor per message.\<close>

datatype log_event =
    OutOfTimeRange int nat
  | NonMasternodeFork int
  | ValidEHF int
  | UnknownBit int
  | UpdateLLMQParamsLog int int nat nat

subsection \<open>Runtime queries\<close>

text \<open>
  The loop of \<^verbatim>\<open>CChainParams::IsValidMNActivation\<close> from slot \<open>index\<close> on: a slot with
  another bit is passed over, a slot with the bit whose window excludes the time is
  logged and passed over (\<^verbatim>\<open>continue\<close>), the first slot with the bit and the time in
  its window decides; after the last slot the bit counts as unknown and is valid.
\<close>

fun IsValidMNActivation_loop ::
  "BIP9Deployment list \<Rightarrow> nat \<Rightarrow> int \<Rightarrow> int \<Rightarrow> log_event list \<times> bool" where
  "IsValidMNActivation_loop [] index nBit timePast = ([UnknownBit nBit], True)"
| "IsValidMNActivation_loop (deployment # rest) index nBit timePast =
     (if bit' deployment = nBit then
        (if timePast > nTimeout deployment \<or> timePast < nStartTime deployment then
           (let (lg, r) = IsValidMNActivation_loop rest (Suc index) nBit timePast
            in (OutOfTimeRange nBit index # lg, r))
         else if \<not> useEHF deployment then ([NonMasternodeFork nBit], False)
         else ([ValidEHF nBit], True))
      else IsValidMNActivation_loop rest (Suc index) nBit timePast)"

definition IsValidMNActivation ::
  "headers \<Rightarrow> 'a Params_scheme \<Rightarrow> int \<Rightarrow> int \<Rightarrow> failure + log_event list \<times> bool" where
  "IsValidMNActivation H c nBit timePast =
     (if nBit < VERSIONBITS_NUM_BITS H
      then Inr (IsValidMNActivation_loop (vDeployments c) 0 nBit timePast)
      else Inl assertion_failed)"

text \<open>
  The records of a \<^verbatim>\<open>std::map\<close> in the order of a range-for loop: the keys in
  increasing order, each with its record when the map has one.
\<close>

fun map_values :: "'k list \<Rightarrow> ('k \<rightharpoonup> 'v) \<Rightarrow> 'v list" where
  "map_values [] m = []"
| "map_values (k # ks) m =
     (case m k of None \<Rightarrow> map_values ks m | Some v \<Rightarrow> v # map_values ks m)"

text \<open>\<^verbatim>\<open>CChainParams::GetLLMQ\<close>: the first record of the catalog whose \<^verbatim>\<open>type\<close> field matches.\<close>

fun GetLLMQ_loop :: "LLMQParams list \<Rightarrow> LLMQType \<Rightarrow> LLMQParams option" where
  "GetLLMQ_loop [] llmqType = None"
| "GetLLMQ_loop (llmq_param # rest) llmqType =
     (if type llmq_param = llmqType then Some llmq_param else GetLLMQ_loop rest llmqType)"

definition GetLLMQ :: "headers \<Rightarrow> 'a Params_scheme \<Rightarrow> LLMQType \<Rightarrow> LLMQParams option" where
  "GetLLMQ H c llmqType = GetLLMQ_loop (map_values (llmq_keys H) (llmqs c)) llmqType"

subsection \<open>The quorum adaptation engine\<close>

text \<open>The remainder of C++ on \<^verbatim>\<open>int\<close>: the quotient is truncated towards zero.\<close>

definition cpp_rem :: "int \<Rightarrow> int \<Rightarrow> int" where
  "cpp_rem a b = sgn a * (\<bar>a\<bar> mod \<bar>b\<bar>)"

definition IsMiningPhase :: "LLMQParams \<Rightarrow> int \<Rightarrow> failure + bool" where
  "IsMiningPhase params nHeight =
     (if dkgInterval params = 0 then Inl division_by_zero
      else (let phaseIndex = cpp_rem nHeight (dkgInterval params)
            in Inr (phaseIndex \<ge> dkgMiningWindowStart params
                    \<and> phaseIndex \<le> dkgMiningWindowEnd params)))"

fun IsLLMQsMiningPhase_loop :: "LLMQParams list \<Rightarrow> int \<Rightarrow> failure + bool" where
  "IsLLMQsMiningPhase_loop [] nHeight = Inr False"
| "IsLLMQsMiningPhase_loop (it # rest) nHeight =
     (case IsMiningPhase it nHeight of
        Inl e \<Rightarrow> Inl e
      | Inr b \<Rightarrow> if b then Inr True else IsLLMQsMiningPhase_loop rest nHeight)"

definition IsLLMQsMiningPhase :: "headers \<Rightarrow> 'a globals \<Rightarrow> int \<Rightarrow> failure + bool" where
  "IsLLMQsMiningPhase H g nHeight =
     IsLLMQsMiningPhase_loop (map_values (llmq_keys H) (llmqs (consensus g))) nHeight"

text \<open>
  The condition of \<^verbatim>\<open>UpdateLLMQParams\<close>,
  \<^verbatim>\<open>(lastCheckHeight < height && lastCheckMnCount != totalMnCount && !IsLLMQsMiningPhase(height)) || lastCheckHeight == -1\<close>,
  evaluated left to right: the mining phase is computed only when the two comparisons
  before it hold.
\<close>

definition update_condition :: "headers \<Rightarrow> 'a globals \<Rightarrow> nat \<Rightarrow> int \<Rightarrow> failure + bool" where
  "update_condition H g totalMnCount height =
     (if lastCheckHeight g < height \<and> lastCheckMnCount g \<noteq> totalMnCount then
        (case IsLLMQsMiningPhase H g height of
           Inl e \<Rightarrow> Inl e
         | Inr mining \<Rightarrow> Inr (\<not> mining \<or> lastCheckHeight g = -1))
      else Inr (lastCheckHeight g = -1))"

text \<open>The assignments of the first branch: the records of the tier of \<open>totalMnCount\<close>.\<close>

definition tier_llmqs ::
  "headers \<Rightarrow> bool \<Rightarrow> nat \<Rightarrow> (LLMQType \<rightharpoonup> LLMQParams) \<Rightarrow> (LLMQType \<rightharpoonup> LLMQParams)" where
  "tier_llmqs H isTestNet totalMnCount m =
     (if (totalMnCount < 80 \<and> isTestNet) \<or> (totalMnCount < 100 \<and> \<not> isTestNet) then
        m(LLMQ_50_60 \<mapsto> llmq_10_60 H, LLMQ_60_75 \<mapsto> llmq_10_75 H,
          LLMQ_400_60 \<mapsto> llmq_20_60 H, LLMQ_400_85 \<mapsto> llmq_20_85 H)
      else if totalMnCount < 200 then
        m(LLMQ_50_60 \<mapsto> llmq_50_60 H, LLMQ_60_75 \<mapsto> llmq_10_75 H,
          LLMQ_400_60 \<mapsto> llmq_40_60 H, LLMQ_400_85 \<mapsto> llmq_40_85 H)
      else if totalMnCount < 600 then
        m(LLMQ_50_60 \<mapsto> llmq_50_60 H, LLMQ_60_75 \<mapsto> llmq_20_75 H,
          LLMQ_400_60 \<mapsto> llmq_40_60 H, LLMQ_400_85 \<mapsto> llmq_40_85 H)
      else
        (let m' = m(LLMQ_50_60 \<mapsto> llmq_50_60 H, LLMQ_400_60 \<mapsto> llmq_400_60 H,
                    LLMQ_400_85 \<mapsto> llmq_400_85 H, LLMQ_60_75 \<mapsto> llmq_20_75 H)
         in if totalMnCount > 2000 then m'(LLMQ_60_75 \<mapsto> llmq_60_75 H) else m'))"

text \<open>
  \<^verbatim>\<open>UpdateLLMQParams(totalMnCount, height)\<close>, the free function that calls the member
  on \<^verbatim>\<open>globalChainParams\<close>. The result carries the log lines written: the first branch
  writes one, the other branch none.
\<close>

definition UpdateLLMQParams ::
  "headers \<Rightarrow> 'a globals \<Rightarrow> nat \<Rightarrow> int \<Rightarrow> failure + log_event list \<times> 'a globals" where
  "UpdateLLMQParams H g totalMnCount height =
     (if strNetworkID g = DEVNET \<or> strNetworkID g = REGTEST then Inr ([], g)
      else
        (case update_condition H g totalMnCount height of
           Inl e \<Rightarrow> Inl e
         | Inr True \<Rightarrow>
             Inr ([UpdateLLMQParamsLog (lastCheckHeight g) height (lastCheckMnCount g) totalMnCount],
                  g\<lparr>lastCheckMnCount := totalMnCount,
                    lastCheckHeight := height,
                    consensus := (consensus g)\<lparr>llmqs :=
                      tier_llmqs H (strNetworkID g = TESTNET) totalMnCount (llmqs (consensus g))\<rparr>\<rparr>)
         | Inr False \<Rightarrow>
             Inr ([],
                  if totalMnCount < 80
                  then g\<lparr>consensus := (consensus g)\<lparr>llmqs :=
                         (llmqs (consensus g))(LLMQ_60_75 \<mapsto> llmq_10_75 H)\<rparr>\<rparr>
                  else g)))"

subsection \<open>Overrides of the quorum roles (devnet)\<close>

text \<open>
  Each of the four entry points takes the value of its command-line argument (\<open>None\<close>
  when the argument is not set, and then nothing happens), asserts that the role's
  present type is in the catalog, and walks the whole catalog for records with the
  given name; the last one found gives the type. The log line is left out.
\<close>

fun UpdateDevnetLLMQChainLocks_loop ::
  "LLMQParams list \<Rightarrow> string \<Rightarrow> LLMQType \<Rightarrow> failure + LLMQType" where
  "UpdateDevnetLLMQChainLocks_loop [] strLLMQType llmqType = Inr llmqType"
| "UpdateDevnetLLMQChainLocks_loop (params # rest) strLLMQType llmqType =
     (if name params = strLLMQType then
        (if useRotation params then
           Inl (runtime_error ''LLMQ type specified for -llmqchainlocks must NOT use rotation'')
         else UpdateDevnetLLMQChainLocks_loop rest strLLMQType (type params))
      else UpdateDevnetLLMQChainLocks_loop rest strLLMQType llmqType)"

definition UpdateDevnetLLMQChainLocksFromArgs ::
  "headers \<Rightarrow> 'a Params_scheme \<Rightarrow> string option \<Rightarrow> failure + 'a Params_scheme" where
  "UpdateDevnetLLMQChainLocksFromArgs H c arg =
     (case arg of
        None \<Rightarrow> Inr c
      | Some strLLMQType \<Rightarrow>
         (case GetLLMQ H c (llmqTypeChainLocks c) of
            None \<Rightarrow> Inl assertion_failed
          | Some llmq_params \<Rightarrow>
             (case UpdateDevnetLLMQChainLocks_loop (map_values (llmq_keys H) (llmqs c))
                     strLLMQType LLMQ_NONE of
                Inl e \<Rightarrow> Inl e
              | Inr llmqType \<Rightarrow>
                 if llmqType = LLMQ_NONE
                 then Inl (runtime_error ''Invalid LLMQ type specified for -llmqchainlocks.'')
                 else Inr (c\<lparr>llmqTypeChainLocks := llmqType\<rparr>))))"

fun UpdateDevnetLLMQInstantSendDIP0024_loop ::
  "LLMQParams list \<Rightarrow> string \<Rightarrow> LLMQType \<Rightarrow> failure + LLMQType" where
  "UpdateDevnetLLMQInstantSendDIP0024_loop [] strLLMQType llmqType = Inr llmqType"
| "UpdateDevnetLLMQInstantSendDIP0024_loop (params # rest) strLLMQType llmqType =
     (if name params = strLLMQType then
        (if \<not> useRotation params then
           Inl (runtime_error ''LLMQ type specified for -llmqinstantsenddip0024 must use rotation'')
         else UpdateDevnetLLMQInstantSendDIP0024_loop rest strLLMQType (type params))
      else UpdateDevnetLLMQInstantSendDIP0024_loop rest strLLMQType llmqType)"

definition UpdateDevnetLLMQInstantSendDIP0024FromArgs ::
  "headers \<Rightarrow> 'a Params_scheme \<Rightarrow> string option \<Rightarrow> failure + 'a Params_scheme" where
  "UpdateDevnetLLMQInstantSendDIP0024FromArgs H c arg =
     (case arg of
        None \<Rightarrow> Inr c
      | Some strLLMQType \<Rightarrow>
         (case GetLLMQ H c (llmqTypeDIP0024InstantSend c) of
            None \<Rightarrow> Inl assertion_failed
          | Some llmq_params \<Rightarrow>
             (case UpdateDevnetLLMQInstantSendDIP0024_loop (map_values (llmq_keys H) (llmqs c))
                     strLLMQType LLMQ_NONE of
                Inl e \<Rightarrow> Inl e
              | Inr llmqType \<Rightarrow>
                 if llmqType = LLMQ_NONE
                 then Inl (runtime_error ''Invalid LLMQ type specified for -llmqinstantsenddip0024.'')
                 else Inr (c\<lparr>llmqTypeDIP0024InstantSend := llmqType\<rparr>))))"

text \<open>
  The loop of \<^verbatim>\<open>UpdateDevnetLLMQPlatformFromArgs\<close> and of
  \<^verbatim>\<open>UpdateDevnetLLMQMnhfFromArgs\<close> (the two are the same text): the name is the only
  test in its body.
\<close>

fun UpdateDevnetLLMQ_name_loop :: "LLMQParams list \<Rightarrow> string \<Rightarrow> LLMQType \<Rightarrow> LLMQType" where
  "UpdateDevnetLLMQ_name_loop [] strLLMQType llmqType = llmqType"
| "UpdateDevnetLLMQ_name_loop (params # rest) strLLMQType llmqType =
     (if name params = strLLMQType
      then UpdateDevnetLLMQ_name_loop rest strLLMQType (type params)
      else UpdateDevnetLLMQ_name_loop rest strLLMQType llmqType)"

definition UpdateDevnetLLMQPlatformFromArgs ::
  "headers \<Rightarrow> 'a Params_scheme \<Rightarrow> string option \<Rightarrow> failure + 'a Params_scheme" where
  "UpdateDevnetLLMQPlatformFromArgs H c arg =
     (case arg of
        None \<Rightarrow> Inr c
      | Some strLLMQType \<Rightarrow>
         (case GetLLMQ H c (llmqTypePlatform c) of
            None \<Rightarrow> Inl assertion_failed
          | Some llmq_params \<Rightarrow>
             (let llmqType = UpdateDevnetLLMQ_name_loop (map_values (llmq_keys H) (llmqs c))
                               strLLMQType LLMQ_NONE
              in if llmqType = LLMQ_NONE
                 then Inl (runtime_error ''Invalid LLMQ type specified for -llmqplatform.'')
                 else Inr (c\<lparr>llmqTypePlatform := llmqType\<rparr>))))"

definition UpdateDevnetLLMQMnhfFromArgs ::
  "headers \<Rightarrow> 'a Params_scheme \<Rightarrow> string option \<Rightarrow> failure + 'a Params_scheme" where
  "UpdateDevnetLLMQMnhfFromArgs H c arg =
     (case arg of
        None \<Rightarrow> Inr c
      | Some strLLMQType \<Rightarrow>
         (case GetLLMQ H c (llmqTypeMnhf c) of
            None \<Rightarrow> Inl assertion_failed
          | Some llmq_params \<Rightarrow>
             (let llmqType = UpdateDevnetLLMQ_name_loop (map_values (llmq_keys H) (llmqs c))
                               strLLMQType LLMQ_NONE
              in if llmqType = LLMQ_NONE
                 then Inl (runtime_error ''Invalid LLMQ type specified for -llmqmnhf.'')
                 else Inr (c\<lparr>llmqTypeMnhf := llmqType\<rparr>))))"

subsection \<open>Overrides of the deployment table (regtest)\<close>

text \<open>
  Modelled from the spec: \<^verbatim>\<open>SplitString\<close> is declared in \<^verbatim>\<open>util/string.h\<close>, which is not
  part of the sources at hand. The spec calls the argument colon-delimited: the fields
  are the pieces between the separators, one more than there are separators, empty
  pieces included.
\<close>

fun SplitString :: "string \<Rightarrow> char \<Rightarrow> string list" where
  "SplitString [] sep = [[]]"
| "SplitString (c # cs) sep =
     (if c = sep then [] # SplitString cs sep
      else (case SplitString cs sep of
              [] \<Rightarrow> [[c]]
            | piece # pieces \<Rightarrow> (c # piece) # pieces))"

text \<open>\<^verbatim>\<open>CRegTestParams::UpdateVersionBitsParameters\<close>: the writes to one slot, in order.\<close>

definition UpdateVersionBitsParameters_slot ::
  "BIP9Deployment \<Rightarrow> int \<Rightarrow> int \<Rightarrow> int \<Rightarrow> int \<Rightarrow> int \<Rightarrow> int \<Rightarrow> int \<Rightarrow> BIP9Deployment" where
  "UpdateVersionBitsParameters_slot dep nStartTime' nTimeout' nWindowSize' nThresholdStart'
       nThresholdMin' nFalloffCoeff' nUseEHF =
     (let d1 = dep\<lparr>nStartTime := nStartTime', nTimeout := nTimeout'\<rparr>;
          d2 = (if nWindowSize' \<noteq> -1 then d1\<lparr>nWindowSize := nWindowSize'\<rparr> else d1);
          d3 = (if nThresholdStart' \<noteq> -1 then d2\<lparr>nThresholdStart := nThresholdStart'\<rparr> else d2);
          d4 = (if nThresholdMin' \<noteq> -1 then d3\<lparr>nThresholdMin := nThresholdMin'\<rparr> else d3);
          d5 = (if nFalloffCoeff' \<noteq> -1 then d4\<lparr>nFalloffCoeff := nFalloffCoeff'\<rparr> else d4)
      in if nUseEHF \<noteq> -1 then d5\<lparr>useEHF := (nUseEHF > 0)\<rparr> else d5)"

definition UpdateVersionBitsParameters ::
  "'a Params_scheme \<Rightarrow> nat \<Rightarrow> int \<Rightarrow> int \<Rightarrow> int \<Rightarrow> int \<Rightarrow> int \<Rightarrow> int \<Rightarrow> int \<Rightarrow> 'a Params_scheme" where
  "UpdateVersionBitsParameters c d nStartTime' nTimeout' nWindowSize' nThresholdStart'
       nThresholdMin' nFalloffCoeff' nUseEHF =
     c\<lparr>vDeployments := (vDeployments c)
         [d := UpdateVersionBitsParameters_slot (vDeployments c ! d) nStartTime' nTimeout'
                 nWindowSize' nThresholdStart' nThresholdMin' nFalloffCoeff' nUseEHF]\<rparr>"

text \<open>
  The search for the deployment's name, from slot \<open>j\<close> on: the first slot whose name
  in \<^verbatim>\<open>VersionBitsDeploymentInfo\<close> equals the first field (the loop breaks there).
\<close>

fun find_deployment :: "string list \<Rightarrow> nat \<Rightarrow> string \<Rightarrow> nat option" where
  "find_deployment [] j s = None"
| "find_deployment (n # ns) j s = (if s = n then Some j else find_deployment ns (Suc j) s)"

definition bind_failure :: "failure + 'a \<Rightarrow> ('a \<Rightarrow> failure + 'b) \<Rightarrow> failure + 'b" where
  "bind_failure r f = (case r of Inl e \<Rightarrow> Inl e | Inr v \<Rightarrow> f v)"

definition parse_field :: "headers \<Rightarrow> string \<Rightarrow> string \<Rightarrow> failure + int" where
  "parse_field H what s =
     (case ParseInt64 H s of
        None \<Rightarrow> Inl (runtime_error (''Invalid '' @ what @ '' ('' @ s @ '')''))
      | Some v \<Rightarrow> Inr v)"

definition vbparams_malformed :: failure where
  "vbparams_malformed = runtime_error
     (''Version bits parameters malformed, expecting ''
      @ ''<deployment>:<start>:<end> or ''
      @ ''<deployment>:<start>:<end>:<window>:<threshold> or ''
      @ ''<deployment>:<start>:<end>:<window>:<thresholdstart>:<thresholdmin>:<falloffcoeff>:<useehf>'')"

text \<open>
  The body of the loop of \<^verbatim>\<open>CRegTestParams::UpdateActivationParametersFromArgs\<close> for one
  \<^verbatim>\<open>-vbparams\<close> string: the count of fields, the integers from left to right, then the
  name. The log line is left out.
\<close>

definition vbparams_entry ::
  "headers \<Rightarrow> 'a Params_scheme \<Rightarrow> string \<Rightarrow> failure + 'a Params_scheme" where
  "vbparams_entry H c strDeployment =
     (let vDeploymentParams = SplitString strDeployment CHR '':'';
          n = length vDeploymentParams
      in if n \<noteq> 3 \<and> n \<noteq> 5 \<and> n \<noteq> 8 then Inl vbparams_malformed
         else
           bind_failure (parse_field H ''nStartTime'' (vDeploymentParams ! 1)) (\<lambda>nStartTime'.
           bind_failure (parse_field H ''nTimeout'' (vDeploymentParams ! 2)) (\<lambda>nTimeout'.
           bind_failure
             (if n \<ge> 5 then
                bind_failure (parse_field H ''nWindowSize'' (vDeploymentParams ! 3)) (\<lambda>w.
                bind_failure (parse_field H ''nThresholdStart'' (vDeploymentParams ! 4)) (\<lambda>t.
                Inr (w, t)))
              else Inr (-1, -1)) (\<lambda>(nWindowSize', nThresholdStart').
           bind_failure
             (if n = 8 then
                bind_failure (parse_field H ''nThresholdMin'' (vDeploymentParams ! 5)) (\<lambda>m.
                bind_failure (parse_field H ''nFalloffCoeff'' (vDeploymentParams ! 6)) (\<lambda>f.
                bind_failure (parse_field H ''nUseEHF'' (vDeploymentParams ! 7)) (\<lambda>u.
                Inr (m, f, u))))
              else Inr (-1, -1, -1)) (\<lambda>(nThresholdMin', nFalloffCoeff', nUseEHF).
           (case find_deployment (VersionBitsDeploymentInfo H) 0 (vDeploymentParams ! 0) of
              None \<Rightarrow>
                Inl (runtime_error (''Invalid deployment ('' @ vDeploymentParams ! 0 @ '')''))
            | Some j \<Rightarrow>
                Inr (UpdateVersionBitsParameters c j nStartTime' nTimeout' nWindowSize'
                       nThresholdStart' nThresholdMin' nFalloffCoeff' nUseEHF)))))))"

text \<open>
  \<^verbatim>\<open>UpdateActivationParametersFromArgs\<close> over the values of \<^verbatim>\<open>-vbparams\<close> in the order
  given (none when the argument is not set); the first failure ends the loop.
\<close>

fun UpdateActivationParametersFromArgs ::
  "headers \<Rightarrow> 'a Params_scheme \<Rightarrow> string list \<Rightarrow> failure + 'a Params_scheme" where
  "UpdateActivationParametersFromArgs H c [] = Inr c"
| "UpdateActivationParametersFromArgs H c (strDeployment # rest) =
     (case vbparams_entry H c strDeployment of
        Inl e \<Rightarrow> Inl e
      | Inr c' \<Rightarrow> UpdateActivationParametersFromArgs H c' rest)"


subsection \<open>Example inputs\<close>

text \<open>
  Modelled from the spec: \<^verbatim>\<open>ParseInt64\<close> is declared in \<^verbatim>\<open>util/strencodings.h\<close>, which is
  not part of the sources at hand; the spec speaks of integers that parse or do not.
  This parser of signed decimal numerals in the range of \<^verbatim>\<open>int64_t\<close> stands for it in
  the examples. The theorems are stated for every parser.
\<close>

definition digit_of :: "char \<Rightarrow> nat option" where
  "digit_of c = map_of (zip ''0123456789'' [0, 1, 2, 3, 4, 5, 6, 7, 8, 9]) c"

fun parse_digits :: "string \<Rightarrow> nat \<Rightarrow> nat option" where
  "parse_digits [] acc = Some acc"
| "parse_digits (c # cs) acc =
     (case digit_of c of None \<Rightarrow> None | Some d \<Rightarrow> parse_digits cs (10 * acc + d))"

definition decimal_ParseInt64 :: "string \<Rightarrow> int option" where
  "decimal_ParseInt64 s =
     (let r = (case s of
                 [] \<Rightarrow> None
               | c # cs \<Rightarrow>
                   if c = CHR ''-''
                   then (if cs = [] then None else map_option (\<lambda>n. - int n) (parse_digits cs 0))
                   else map_option int (parse_digits s 0))
      in case r of
           None \<Rightarrow> None
         | Some v \<Rightarrow> if - (2 ^ 63) \<le> v \<and> v < 2 ^ 63 then Some v else None)"

text \<open>A quorum record with a DKG interval of 24 blocks and the mining window 10 to 18.\<close>

definition example_llmq :: "LLMQType \<Rightarrow> string \<Rightarrow> bool \<Rightarrow> LLMQParams" where
  "example_llmq t n rot =
     \<lparr>type = t, name = n, useRotation = rot, size = 50, minSize = 40, threshold = 30,
      dkgInterval = 24, dkgMiningWindowStart = 10, dkgMiningWindowEnd = 18,
      dkgBadVotesThreshold = 40\<rparr>"

definition example_headers :: headers where
  "example_headers =
     \<lparr>VERSIONBITS_NUM_BITS = 29,
      VersionBitsDeploymentInfo = [''testdummy'', ''v20'', ''mn_rr''],
      ParseInt64 = decimal_ParseInt64,
      llmq_keys = [LLMQ_50_60, LLMQ_400_60, LLMQ_400_85, LLMQ_100_67, LLMQ_60_75,
                   LLMQ_TEST, LLMQ_DEVNET, LLMQ_TEST_V17, LLMQ_TEST_DIP0024,
                   LLMQ_TEST_INSTANTSEND, LLMQ_DEVNET_DIP0024, LLMQ_TEST_PLATFORM,
                   LLMQ_DEVNET_PLATFORM, LLMQ_NONE],
      llmq_10_60 = example_llmq LLMQ_50_60 ''llmq_10_60'' False,
      llmq_10_75 = example_llmq LLMQ_60_75 ''llmq_10_75'' True,
      llmq_20_60 = example_llmq LLMQ_400_60 ''llmq_20_60'' False,
      llmq_20_75 = example_llmq LLMQ_60_75 ''llmq_20_75'' True,
      llmq_20_85 = example_llmq LLMQ_400_85 ''llmq_20_85'' False,
      llmq_40_60 = example_llmq LLMQ_400_60 ''llmq_40_60'' False,
      llmq_40_85 = example_llmq LLMQ_400_85 ''llmq_40_85'' False,
      llmq_50_60 = example_llmq LLMQ_50_60 ''llmq_50_60'' False,
      llmq_60_75 = example_llmq LLMQ_60_75 ''llmq_60_75'' True,
      llmq_400_60 = example_llmq LLMQ_400_60 ''llmq_400_60'' False,
      llmq_400_85 = example_llmq LLMQ_400_85 ''llmq_400_85'' False\<rparr>"

text \<open>
  The deployment table and the catalog as the constructor \<^verbatim>\<open>CMainParams()\<close> fills them
  (the slots in the order of the constructor; a field that the constructor does not
  assign is 0 or \<open>False\<close> here), with the statics at their initial values.
\<close>

definition example_deployments :: "BIP9Deployment list" where
  "example_deployments =
     [\<lparr>bit' = 28, nStartTime = 1199145601, nTimeout = 1230767999, nWindowSize = 0,
       nThresholdStart = 0, nThresholdMin = 0, nFalloffCoeff = 0, useEHF = False\<rparr>,
      \<lparr>bit' = 9, nStartTime = 0, nTimeout = 1740787200, nWindowSize = 4032,
       nThresholdStart = 3226, nThresholdMin = 2420, nFalloffCoeff = 5, useEHF = False\<rparr>,
      \<lparr>bit' = 10, nStartTime = 0, nTimeout = 1740787200, nWindowSize = 4032,
       nThresholdStart = 3226, nThresholdMin = 2420, nFalloffCoeff = 5, useEHF = True\<rparr>]"

definition example_consensus :: Params where
  "example_consensus =
     \<lparr>vDeployments = example_deployments,
      llmqs = [LLMQ_50_60 \<mapsto> llmq_50_60 example_headers,
               LLMQ_60_75 \<mapsto> llmq_60_75 example_headers,
               LLMQ_400_60 \<mapsto> llmq_20_60 example_headers,
               LLMQ_400_85 \<mapsto> llmq_20_85 example_headers,
               LLMQ_100_67 \<mapsto> example_llmq LLMQ_100_67 ''llmq_100_67'' False],
      llmqTypeChainLocks = LLMQ_400_60,
      llmqTypeDIP0024InstantSend = LLMQ_60_75,
      llmqTypePlatform = LLMQ_100_67,
      llmqTypeMnhf = LLMQ_400_85\<rparr>"

definition example_globals :: "Chain \<Rightarrow> unit globals" where
  "example_globals chain =
     \<lparr>strNetworkID = chain, consensus = example_consensus,
      lastCheckMnCount = 0, lastCheckHeight = -1\<rparr>"

text \<open>
  The deployment of the activation example: bit 10, start 0, timeout 100, flag set.
\<close>

definition example_window :: Params where
  "example_window =
     example_consensus\<lparr>vDeployments :=
       [\<lparr>bit' = 10, nStartTime = 0, nTimeout = 100, nWindowSize = 0, nThresholdStart = 0,
         nThresholdMin = 0, nFalloffCoeff = 0, useEHF = True\<rparr>]\<rparr>"

text \<open>
  The state after the first call of the engine on the main network, with 2500
  masternodes at height 100: the statics and the records of the largest tier.
\<close>

definition example_updated :: "unit globals" where
  "example_updated =
     (example_globals MAIN)
       \<lparr>lastCheckMnCount := 2500, lastCheckHeight := 100,
        consensus := example_consensus\<lparr>llmqs :=
          tier_llmqs example_headers False 2500 (llmqs example_consensus)\<rparr>\<rparr>"

text \<open>
  The catalog and the role designations as the constructor \<^verbatim>\<open>CDevNetParams()\<close> sets
  them before it reads the overrides; the record of the role DIP0024 uses rotation.
\<close>

definition example_devnet :: Params where
  "example_devnet =
     \<lparr>vDeployments = example_deployments,
      llmqs = [LLMQ_50_60 \<mapsto> llmq_50_60 example_headers,
               LLMQ_60_75 \<mapsto> llmq_60_75 example_headers,
               LLMQ_400_60 \<mapsto> llmq_20_60 example_headers,
               LLMQ_400_85 \<mapsto> llmq_20_85 example_headers,
               LLMQ_100_67 \<mapsto> example_llmq LLMQ_100_67 ''llmq_100_67'' False,
               LLMQ_DEVNET \<mapsto> example_llmq LLMQ_DEVNET ''llmq_devnet'' False,
               LLMQ_DEVNET_DIP0024 \<mapsto>
                 example_llmq LLMQ_DEVNET_DIP0024 ''llmq_devnet_dip0024'' True,
               LLMQ_DEVNET_PLATFORM \<mapsto>
                 example_llmq LLMQ_DEVNET_PLATFORM ''llmq_devnet_platform'' False],
      llmqTypeChainLocks = LLMQ_DEVNET,
      llmqTypeDIP0024InstantSend = LLMQ_DEVNET_DIP0024,
      llmqTypePlatform = LLMQ_DEVNET_PLATFORM,
      llmqTypeMnhf = LLMQ_DEVNET\<rparr>"

section \<open>Properties\<close>

subsection \<open>Lemmas about the loops\<close>

lemma IsValidMNActivation_loop_result:
  "snd (IsValidMNActivation_loop ds i nBit t) =
     (case find (\<lambda>d. bit' d = nBit \<and> nStartTime d \<le> t \<and> t \<le> nTimeout d) ds of
        None \<Rightarrow> True | Some d \<Rightarrow> useEHF d)"
proof (induction ds arbitrary: i)
  case Nil
  show ?case by simp
next
  case (Cons d ds)
  show ?case
    using Cons.IH [of "Suc i"]
    by (simp add: case_prod_unfold not_less not_le)
qed

lemma IsValidMNActivation_loop_unknown:
  "\<forall>d\<in>set ds. bit' d \<noteq> nBit \<Longrightarrow>
   IsValidMNActivation_loop ds i nBit t = ([UnknownBit nBit], True)"
  by (induction ds arbitrary: i) auto

lemma find_single_slot:
  "d \<in> set ds \<Longrightarrow> bit' d = nBit \<Longrightarrow> \<forall>d'\<in>set ds. bit' d' = nBit \<longrightarrow> d' = d \<Longrightarrow>
   find (\<lambda>x. bit' x = nBit \<and> P x) ds = (if P d then Some d else None)"
proof (induction ds)
  case Nil
  then show ?case by simp
next
  case (Cons a ds)
  show ?case
  proof (cases "bit' a = nBit")
    case True
    note bit_a = this
    have a: "a = d" using Cons.prems(3) bit_a by simp
    show ?thesis
    proof (cases "P d")
      case True
      then show ?thesis using a bit_a by simp
    next
      case False
      have "\<forall>x\<in>set ds. bit' x = nBit \<longrightarrow> x = d" using Cons.prems by simp
      then have "\<forall>x\<in>set ds. \<not> (bit' x = nBit \<and> P x)" using False by blast
      then have "find (\<lambda>x. bit' x = nBit \<and> P x) ds = None" by (simp add: find_None_iff)
      then show ?thesis using a False bit_a by simp
    qed
  next
    case False
    note bit_a = this
    have "d \<in> set ds" using Cons.prems(1,2) bit_a by auto
    moreover have "\<forall>d'\<in>set ds. bit' d' = nBit \<longrightarrow> d' = d" using Cons.prems(3) by simp
    ultimately have "find (\<lambda>x. bit' x = nBit \<and> P x) ds = (if P d then Some d else None)"
      using Cons.IH Cons.prems(2) by blast
    then show ?thesis using bit_a by simp
  qed
qed

lemma GetLLMQ_loop_None: "GetLLMQ_loop ps ty = None \<longleftrightarrow> (\<forall>p\<in>set ps. type p \<noteq> ty)"
  by (induction ps) auto

lemma GetLLMQ_loop_Some: "GetLLMQ_loop ps ty = Some p \<Longrightarrow> type p = ty \<and> p \<in> set ps"
  by (induction ps) (auto split: if_splits)

lemma set_map_values: "set (map_values ks m) = {v. \<exists>k\<in>set ks. m k = Some v}"
  by (induction ks) (auto split: option.splits)

lemma set_map_values_ran: "set (map_values ks m) \<subseteq> ran m"
  by (auto simp: set_map_values ran_def)

lemma IsLLMQsMiningPhase_loop_total:
  "\<forall>p\<in>set ps. dkgInterval p \<noteq> 0 \<Longrightarrow>
   IsLLMQsMiningPhase_loop ps h =
     Inr (\<exists>p\<in>set ps. dkgMiningWindowStart p \<le> cpp_rem h (dkgInterval p)
                     \<and> cpp_rem h (dkgInterval p) \<le> dkgMiningWindowEnd p)"
  by (induction ps) (auto simp: IsMiningPhase_def Let_def)

lemma IsLLMQsMiningPhase_total:
  assumes "\<forall>p\<in>ran (llmqs (consensus g)). dkgInterval p \<noteq> 0"
  shows "IsLLMQsMiningPhase H g h =
     Inr (\<exists>p\<in>set (map_values (llmq_keys H) (llmqs (consensus g))).
            dkgMiningWindowStart p \<le> cpp_rem h (dkgInterval p)
            \<and> cpp_rem h (dkgInterval p) \<le> dkgMiningWindowEnd p)"
proof -
  have "\<forall>p\<in>set (map_values (llmq_keys H) (llmqs (consensus g))). dkgInterval p \<noteq> 0"
  proof
    fix p assume "p \<in> set (map_values (llmq_keys H) (llmqs (consensus g)))"
    then have "p \<in> ran (llmqs (consensus g))"
      by (rule subsetD [OF set_map_values_ran])
    then show "dkgInterval p \<noteq> 0" by (rule bspec [OF assms])
  qed
  then show ?thesis
    unfolding IsLLMQsMiningPhase_def by (rule IsLLMQsMiningPhase_loop_total)
qed

lemma UpdateLLMQParams_returns:
  assumes "\<forall>p\<in>ran (llmqs (consensus g)). dkgInterval p \<noteq> 0"
  shows "\<exists>r. UpdateLLMQParams H g n h = Inr r"
  using IsLLMQsMiningPhase_total [OF assms, of H h]
  by (simp add: UpdateLLMQParams_def update_condition_def split: bool.splits)

subsection \<open>The activation query\<close>

text \<open>
  C2, as the code has it. A slot whose window excludes the time is passed over and does
  not make the query false. For every bit below the bound the query returns, and its
  value is decided by the first slot that carries the bit and has the time in
  [nStartTime, nTimeout]: the value is that slot's useEHF flag, and it is true when
  there is no such slot. So for a bit that exactly one slot carries, the query is
  false only when the time is in the window and the flag is not set; when the window
  excludes the time it is true.
\<close>

theorem C2_activation_first_slot_in_window:
  assumes "nBit < VERSIONBITS_NUM_BITS H"
  shows "(\<exists>lg. IsValidMNActivation H c nBit timePast =
            Inr (lg, case find (\<lambda>d. bit' d = nBit \<and> nStartTime d \<le> timePast
                                      \<and> timePast \<le> nTimeout d) (vDeployments c) of
                       None \<Rightarrow> True | Some d \<Rightarrow> useEHF d))
       \<and> (\<forall>d\<in>set (vDeployments c).
            bit' d = nBit \<and> (\<forall>d'\<in>set (vDeployments c). bit' d' = nBit \<longrightarrow> d' = d) \<longrightarrow>
            (\<exists>lg. IsValidMNActivation H c nBit timePast =
               Inr (lg, nStartTime d \<le> timePast \<and> timePast \<le> nTimeout d \<longrightarrow> useEHF d)))"
proof -
  let ?in_window = "\<lambda>d. nStartTime d \<le> timePast \<and> timePast \<le> nTimeout d"
  let ?r = "IsValidMNActivation_loop (vDeployments c) 0 nBit timePast"
  have call: "IsValidMNActivation H c nBit timePast = Inr (fst ?r, snd ?r)"
    using assms by (simp add: IsValidMNActivation_def)
  have val: "snd ?r = (case find (\<lambda>d. bit' d = nBit \<and> ?in_window d) (vDeployments c) of
                         None \<Rightarrow> True | Some d \<Rightarrow> useEHF d)"
    by (rule IsValidMNActivation_loop_result)
  have first: "\<exists>lg. IsValidMNActivation H c nBit timePast =
            Inr (lg, case find (\<lambda>d. bit' d = nBit \<and> ?in_window d) (vDeployments c) of
                       None \<Rightarrow> True | Some d \<Rightarrow> useEHF d)"
  proof (rule exI [where x = "fst ?r"])
    show "IsValidMNActivation H c nBit timePast =
            Inr (fst ?r, case find (\<lambda>d. bit' d = nBit \<and> ?in_window d) (vDeployments c) of
                       None \<Rightarrow> True | Some d \<Rightarrow> useEHF d)"
      by (simp only: call val)
  qed
  have second: "\<exists>lg. IsValidMNActivation H c nBit timePast = Inr (lg, ?in_window d \<longrightarrow> useEHF d)"
    if d: "d \<in> set (vDeployments c)"
       "bit' d = nBit \<and> (\<forall>d'\<in>set (vDeployments c). bit' d' = nBit \<longrightarrow> d' = d)" for d
  proof (rule exI [where x = "fst ?r"])
    have f: "find (\<lambda>x. bit' x = nBit \<and> ?in_window x) (vDeployments c)
            = (if ?in_window d then Some d else None)"
      using d(1) conjunct1 [OF d(2)] conjunct2 [OF d(2)] by (rule find_single_slot)
    have "snd ?r = (?in_window d \<longrightarrow> useEHF d)"
      by (cases "?in_window d") (auto simp: val f)
    then show "IsValidMNActivation H c nBit timePast = Inr (fst ?r, ?in_window d \<longrightarrow> useEHF d)"
      by (simp only: call)
  qed
  show ?thesis
  proof (intro conjI ballI impI)
    show "\<exists>lg. IsValidMNActivation H c nBit timePast =
            Inr (lg, case find (\<lambda>d. bit' d = nBit \<and> ?in_window d) (vDeployments c) of
                       None \<Rightarrow> True | Some d \<Rightarrow> useEHF d)"
      by (rule first)
  next
    fix d
    assume "d \<in> set (vDeployments c)"
      and "bit' d = nBit \<and> (\<forall>d'\<in>set (vDeployments c). bit' d' = nBit \<longrightarrow> d' = d)"
    then show "\<exists>lg. IsValidMNActivation H c nBit timePast = Inr (lg, ?in_window d \<longrightarrow> useEHF d)"
      by (rule second)
  qed
qed

theorem C2_activation_witness:
  "(10::int) < VERSIONBITS_NUM_BITS example_headers
   \<and> IsValidMNActivation example_headers example_window 10 50 = Inr ([ValidEHF 10], True)
   \<and> (\<exists>lg. IsValidMNActivation example_headers example_window 10 50 = Inr (lg, True))"
proof -
  have b: "(10::int) < VERSIONBITS_NUM_BITS example_headers"
    by (simp add: example_headers_def)
  have "\<exists>lg. IsValidMNActivation example_headers example_window 10 50 =
            Inr (lg, case find (\<lambda>d. bit' d = 10 \<and> nStartTime d \<le> 50 \<and> 50 \<le> nTimeout d)
                         (vDeployments example_window) of
                       None \<Rightarrow> True | Some d \<Rightarrow> useEHF d)"
    using C2_activation_first_slot_in_window [OF b, of example_window 50] by blast
  then have "\<exists>lg. IsValidMNActivation example_headers example_window 10 50 = Inr (lg, True)"
    by (simp add: example_window_def)
  moreover have "IsValidMNActivation example_headers example_window 10 50 = Inr ([ValidEHF 10], True)"
    by (simp add: IsValidMNActivation_def example_headers_def example_window_def)
  ultimately show ?thesis using b by blast
qed

text \<open>
  C2 as stated fails: with the one deployment of the example (start 0, timeout 100,
  flag set) the query at time 150 and the query at time -1 pass the slot over, find no
  other slot with the bit and answer true.
\<close>

theorem C2_activation_counterexample:
  "IsValidMNActivation example_headers example_window 10 150
     = Inr ([OutOfTimeRange 10 0, UnknownBit 10], True)
   \<and> IsValidMNActivation example_headers example_window 10 (-1)
     = Inr ([OutOfTimeRange 10 0, UnknownBit 10], True)"
  by (simp add: IsValidMNActivation_def example_headers_def example_window_def)

text \<open>
  C6. A bit below the bound that no slot of the table carries is valid at every time:
  the query returns true and writes the one warning about the unknown bit.
\<close>

theorem C6_unknown_bit_is_valid:
  assumes "nBit < VERSIONBITS_NUM_BITS H"
    and "\<forall>d\<in>set (vDeployments c). bit' d \<noteq> nBit"
  shows "IsValidMNActivation H c nBit timePast = Inr ([UnknownBit nBit], True)"
  using assms by (simp add: IsValidMNActivation_def IsValidMNActivation_loop_unknown)

theorem C6_unknown_bit_witness:
  "(7::int) < VERSIONBITS_NUM_BITS example_headers
   \<and> list_all (\<lambda>d. bit' d \<noteq> 7) (vDeployments example_consensus)
   \<and> IsValidMNActivation example_headers example_consensus 7 1700000000
       = Inr ([UnknownBit 7], True)"
proof -
  have b: "(7::int) < VERSIONBITS_NUM_BITS example_headers"
    by (simp add: example_headers_def)
  have u: "\<forall>d\<in>set (vDeployments example_consensus). bit' d \<noteq> 7"
    by (simp add: example_consensus_def example_deployments_def)
  have l: "list_all (\<lambda>d. bit' d \<noteq> 7) (vDeployments example_consensus)"
    by (simp add: example_consensus_def example_deployments_def)
  show ?thesis using b l C6_unknown_bit_is_valid [OF b u, of 1700000000] by simp
qed

subsection \<open>The runtime queries return\<close>

text \<open>
  C7, as the code has it. The activation query returns a boolean for every time and for
  every bit below VERSIONBITS_NUM_BITS; for a bit at or above the bound the assertion
  at its entry fails. GetLLMQ is defined for every type: it is empty exactly when no
  record of the catalog has the type, and a record it returns has the type and is in
  the catalog. The adaptation engine returns for every count and height when no record
  of the catalog has a DKG interval of zero.
\<close>

theorem C7_runtime_queries_return:
  "(nBit < VERSIONBITS_NUM_BITS H \<longrightarrow> (\<exists>r. IsValidMNActivation H c nBit timePast = Inr r))
   \<and> (VERSIONBITS_NUM_BITS H \<le> nBit \<longrightarrow>
        IsValidMNActivation H c nBit timePast = Inl assertion_failed)
   \<and> (GetLLMQ H c llmqType = None \<longleftrightarrow>
        (\<forall>p\<in>set (map_values (llmq_keys H) (llmqs c)). type p \<noteq> llmqType))
   \<and> (\<forall>p. GetLLMQ H c llmqType = Some p \<longrightarrow> type p = llmqType \<and> p \<in> ran (llmqs c))
   \<and> ((\<forall>p\<in>ran (llmqs (consensus g)). dkgInterval p \<noteq> 0) \<longrightarrow>
        (\<exists>r. UpdateLLMQParams H g totalMnCount height = Inr r))"
proof (intro conjI impI allI)
  assume "nBit < VERSIONBITS_NUM_BITS H"
  then show "\<exists>r. IsValidMNActivation H c nBit timePast = Inr r"
    by (simp add: IsValidMNActivation_def)
next
  assume "VERSIONBITS_NUM_BITS H \<le> nBit"
  then show "IsValidMNActivation H c nBit timePast = Inl assertion_failed"
    by (simp add: IsValidMNActivation_def)
next
  show "GetLLMQ H c llmqType = None \<longleftrightarrow>
        (\<forall>p\<in>set (map_values (llmq_keys H) (llmqs c)). type p \<noteq> llmqType)"
    by (simp only: GetLLMQ_def GetLLMQ_loop_None)
next
  fix p assume "GetLLMQ H c llmqType = Some p"
  then show "type p = llmqType"
    unfolding GetLLMQ_def by (rule conjunct1 [OF GetLLMQ_loop_Some])
next
  fix p assume "GetLLMQ H c llmqType = Some p"
  then have "p \<in> set (map_values (llmq_keys H) (llmqs c))"
    unfolding GetLLMQ_def by (rule conjunct2 [OF GetLLMQ_loop_Some])
  then show "p \<in> ran (llmqs c)"
    by (rule subsetD [OF set_map_values_ran])
next
  assume "\<forall>p\<in>ran (llmqs (consensus g)). dkgInterval p \<noteq> 0"
  then show "\<exists>r. UpdateLLMQParams H g totalMnCount height = Inr r"
    by (rule UpdateLLMQParams_returns)
qed

lemma example_intervals:
  "\<forall>p\<in>ran (llmqs (consensus (example_globals chain))). dkgInterval p \<noteq> 0"
  by (auto simp: ran_def example_globals_def example_consensus_def example_headers_def
        example_llmq_def split: if_splits)

theorem C7_runtime_queries_witness:
  "(\<exists>r. IsValidMNActivation example_headers example_consensus 10 50 = Inr r)
   \<and> IsValidMNActivation example_headers example_consensus 29 50 = Inl assertion_failed
   \<and> GetLLMQ example_headers example_consensus LLMQ_DEVNET = None
   \<and> (\<exists>r. UpdateLLMQParams example_headers (example_globals MAIN) 150 12 = Inr r)"
proof -
  note q = C7_runtime_queries_return [of _ example_headers example_consensus 50 LLMQ_DEVNET
      "example_globals MAIN" 150 12]
  have "\<exists>r. IsValidMNActivation example_headers example_consensus 10 50 = Inr r"
    using conjunct1 [OF q [of 10]] by (simp add: example_headers_def)
  moreover have "IsValidMNActivation example_headers example_consensus 29 50 = Inl assertion_failed"
    using conjunct1 [OF conjunct2 [OF q [of 29]]] by (simp add: example_headers_def)
  moreover have "GetLLMQ example_headers example_consensus LLMQ_DEVNET = None"
    by (simp add: GetLLMQ_def example_headers_def example_consensus_def example_llmq_def)
  moreover have "\<exists>r. UpdateLLMQParams example_headers (example_globals MAIN) 150 12 = Inr r"
    using conjunct2 [OF conjunct2 [OF conjunct2 [OF conjunct2 [OF q [of 10]]]]] example_intervals
    by simp
  ultimately show ?thesis by simp
qed

text \<open>
  C7 as stated fails for the bit 29, the bound itself in the example: the assertion
  at the entry of the query does not hold. And a catalog record with a DKG interval of
  zero makes the first call of the engine compute a remainder by zero.
\<close>

theorem C7_runtime_queries_counterexample:
  "IsValidMNActivation example_headers example_consensus 29 50 = Inl assertion_failed
   \<and> UpdateLLMQParams example_headers
         ((example_globals MAIN)\<lparr>consensus := example_consensus\<lparr>llmqs :=
            [LLMQ_50_60 \<mapsto> (llmq_50_60 example_headers)\<lparr>dkgInterval := 0\<rparr>]\<rparr>\<rparr>) 150 12
       = Inl division_by_zero"
  by (simp add: IsValidMNActivation_def UpdateLLMQParams_def update_condition_def
        IsLLMQsMiningPhase_def IsMiningPhase_def example_headers_def example_globals_def
        example_llmq_def)

subsection \<open>Lemmas about the adaptation engine\<close>

lemma update_condition_iff:
  assumes "update_condition H g n h = Inr b"
  shows "b \<longleftrightarrow> (lastCheckHeight g < h \<and> lastCheckMnCount g \<noteq> n
                \<and> IsLLMQsMiningPhase H g h = Inr False) \<or> lastCheckHeight g = -1"
proof (cases "lastCheckHeight g < h \<and> lastCheckMnCount g \<noteq> n")
  case True
  have u: "update_condition H g n h =
             (case IsLLMQsMiningPhase H g h of
                Inl e \<Rightarrow> Inl e
              | Inr mining \<Rightarrow> Inr (\<not> mining \<or> lastCheckHeight g = -1))"
    unfolding update_condition_def by (rule if_P [OF True])
  show ?thesis
  proof (cases "IsLLMQsMiningPhase H g h")
    case (Inl e)
    then show ?thesis using u assms by simp
  next
    case (Inr mining)
    then have "b = (\<not> mining \<or> lastCheckHeight g = -1)"
      using u assms by simp
    then show ?thesis using True Inr by simp
  qed
next
  case False
  have "update_condition H g n h = Inr (lastCheckHeight g = -1)"
    unfolding update_condition_def by (rule if_not_P [OF False])
  then have "b = (lastCheckHeight g = -1)"
    using assms by simp
  then show ?thesis using False by auto
qed

lemma UpdateLLMQParams_excluded:
  "strNetworkID g = DEVNET \<or> strNetworkID g = REGTEST \<Longrightarrow>
   UpdateLLMQParams H g n h = Inr ([], g)"
  by (simp add: UpdateLLMQParams_def)

lemma UpdateLLMQParams_updated:
  assumes "strNetworkID g \<noteq> DEVNET" "strNetworkID g \<noteq> REGTEST"
    and "update_condition H g n h = Inr True"
  shows "UpdateLLMQParams H g n h =
     Inr ([UpdateLLMQParamsLog (lastCheckHeight g) h (lastCheckMnCount g) n],
          g\<lparr>lastCheckMnCount := n, lastCheckHeight := h,
            consensus := (consensus g)\<lparr>llmqs :=
              tier_llmqs H (strNetworkID g = TESTNET) n (llmqs (consensus g))\<rparr>\<rparr>)"
  using assms by (simp add: UpdateLLMQParams_def)

lemma UpdateLLMQParams_skipped:
  assumes "strNetworkID g \<noteq> DEVNET" "strNetworkID g \<noteq> REGTEST"
    and "update_condition H g n h = Inr False"
  shows "UpdateLLMQParams H g n h =
     Inr ([], if n < 80
              then g\<lparr>consensus := (consensus g)\<lparr>llmqs :=
                     (llmqs (consensus g))(LLMQ_60_75 \<mapsto> llmq_10_75 H)\<rparr>\<rparr>
              else g)"
  using assms by (simp add: UpdateLLMQParams_def)

lemma UpdateLLMQParams_condition:
  assumes "UpdateLLMQParams H g n h = Inr r"
    and "strNetworkID g \<noteq> DEVNET" "strNetworkID g \<noteq> REGTEST"
  shows "\<exists>b. update_condition H g n h = Inr b"
  using assms
  by (cases "update_condition H g n h") (simp_all add: UpdateLLMQParams_def)

lemma tier_llmqs_other:
  "k \<noteq> LLMQ_50_60 \<Longrightarrow> k \<noteq> LLMQ_60_75 \<Longrightarrow> k \<noteq> LLMQ_400_60 \<Longrightarrow> k \<noteq> LLMQ_400_85 \<Longrightarrow>
   tier_llmqs H t n m k = m k"
  by (simp add: tier_llmqs_def Let_def)

lemma tier_llmqs_idem: "tier_llmqs H t n (tier_llmqs H t n m) = tier_llmqs H t n m"
  by (rule ext) (simp add: tier_llmqs_def Let_def)

lemma tier_llmqs_below_80:
  "n < 80 \<Longrightarrow> tier_llmqs H t n m LLMQ_60_75 = Some (llmq_10_75 H)"
  by (simp add: tier_llmqs_def)

lemma cpp_rem_nonneg: "0 \<le> a \<Longrightarrow> 0 < b \<Longrightarrow> cpp_rem a b = a mod b"
  by (cases "a = 0") (simp_all add: cpp_rem_def)

lemma UpdateLLMQParams_logged:
  assumes run: "UpdateLLMQParams H g n h = Inr (lg, g')" and lg: "lg \<noteq> []"
  shows "strNetworkID g \<noteq> DEVNET \<and> strNetworkID g \<noteq> REGTEST
       \<and> update_condition H g n h = Inr True
       \<and> g' = g\<lparr>lastCheckMnCount := n, lastCheckHeight := h,
                 consensus := (consensus g)\<lparr>llmqs :=
                   tier_llmqs H (strNetworkID g = TESTNET) n (llmqs (consensus g))\<rparr>\<rparr>"
proof -
  have net: "strNetworkID g \<noteq> DEVNET \<and> strNetworkID g \<noteq> REGTEST"
  proof (rule ccontr)
    assume "\<not> ?thesis"
    then have "strNetworkID g = DEVNET \<or> strNetworkID g = REGTEST" by simp
    then have "UpdateLLMQParams H g n h = Inr ([], g)" by (rule UpdateLLMQParams_excluded)
    then show False using run lg by simp
  qed
  then obtain b where b: "update_condition H g n h = Inr b"
    using UpdateLLMQParams_condition [OF run] by auto
  have "b"
  proof (rule ccontr)
    assume "\<not> b"
    then have "update_condition H g n h = Inr False" using b by simp
    then show False
      using UpdateLLMQParams_skipped [of g H n h] net run lg by simp
  qed
  then have c: "update_condition H g n h = Inr True" using b by simp
  show ?thesis
    using UpdateLLMQParams_updated [of g H n h] net c run by simp
qed

lemma UpdateLLMQParams_silent:
  assumes run: "UpdateLLMQParams H g n h = Inr (lg, g')" and lg: "lg = []"
    and net: "strNetworkID g \<noteq> DEVNET" "strNetworkID g \<noteq> REGTEST"
  shows "update_condition H g n h = Inr False
       \<and> g' = (if n < 80
               then g\<lparr>consensus := (consensus g)\<lparr>llmqs :=
                      (llmqs (consensus g))(LLMQ_60_75 \<mapsto> llmq_10_75 H)\<rparr>\<rparr>
               else g)"
proof -
  obtain b where b: "update_condition H g n h = Inr b"
    using UpdateLLMQParams_condition [OF run net] by auto
  have "\<not> b"
  proof
    assume "b"
    then have "update_condition H g n h = Inr True" using b by simp
    then show False
      using UpdateLLMQParams_updated [of g H n h] net run lg by simp
  qed
  then have c: "update_condition H g n h = Inr False" using b by simp
  show ?thesis
    using UpdateLLMQParams_skipped [of g H n h] net c run by simp
qed

subsection \<open>When the engine recomputes\<close>

text \<open>
  C1, as the code has it. On the main and the test network a call that returns has
  written its log line and recomputed the tiers exactly when the height is greater
  than the last checked height, the count differs from the last checked count and the
  height is in no mining window, or when the last checked height is -1; with the last
  checked height at -1 the recomputation runs whatever the count and the mining phase
  are. A recomputation stores the tier's records, the count and the height; without
  one the entries of the roles 50_60, 400_60 and 400_85 and the two statics stay as
  they are. When no record has a DKG interval of zero, the mining phase is the
  statement that some record of the catalog has the remainder of the height by its
  interval within its mining window.
\<close>

theorem C1_recomputation_condition:
  assumes net: "strNetworkID g = MAIN \<or> strNetworkID g = TESTNET"
    and run: "UpdateLLMQParams H g n h = Inr (lg, g')"
  shows "(lg \<noteq> [] \<longleftrightarrow>
            (lastCheckHeight g < h \<and> lastCheckMnCount g \<noteq> n
               \<and> IsLLMQsMiningPhase H g h = Inr False)
            \<or> lastCheckHeight g = -1)
       \<and> (lg \<noteq> [] \<longrightarrow>
            llmqs (consensus g') = tier_llmqs H (strNetworkID g = TESTNET) n (llmqs (consensus g))
            \<and> lastCheckMnCount g' = n \<and> lastCheckHeight g' = h)
       \<and> (lg = [] \<longrightarrow>
            llmqs (consensus g') LLMQ_50_60 = llmqs (consensus g) LLMQ_50_60
            \<and> llmqs (consensus g') LLMQ_400_60 = llmqs (consensus g) LLMQ_400_60
            \<and> llmqs (consensus g') LLMQ_400_85 = llmqs (consensus g) LLMQ_400_85
            \<and> lastCheckMnCount g' = lastCheckMnCount g
            \<and> lastCheckHeight g' = lastCheckHeight g)
       \<and> ((\<forall>p\<in>ran (llmqs (consensus g)). dkgInterval p \<noteq> 0) \<longrightarrow>
            IsLLMQsMiningPhase H g h =
              Inr (\<exists>p\<in>set (map_values (llmq_keys H) (llmqs (consensus g))).
                     dkgMiningWindowStart p \<le> cpp_rem h (dkgInterval p)
                     \<and> cpp_rem h (dkgInterval p) \<le> dkgMiningWindowEnd p))"
proof -
  let ?cond = "(lastCheckHeight g < h \<and> lastCheckMnCount g \<noteq> n
                 \<and> IsLLMQsMiningPhase H g h = Inr False) \<or> lastCheckHeight g = -1"
  have net': "strNetworkID g \<noteq> DEVNET" "strNetworkID g \<noteq> REGTEST"
    using net by auto
  have logged: "update_condition H g n h = Inr True
       \<and> g' = g\<lparr>lastCheckMnCount := n, lastCheckHeight := h,
                 consensus := (consensus g)\<lparr>llmqs :=
                   tier_llmqs H (strNetworkID g = TESTNET) n (llmqs (consensus g))\<rparr>\<rparr>"
    if "lg \<noteq> []"
    using UpdateLLMQParams_logged [OF run that] by simp
  have silent: "update_condition H g n h = Inr False
       \<and> g' = (if n < 80
               then g\<lparr>consensus := (consensus g)\<lparr>llmqs :=
                      (llmqs (consensus g))(LLMQ_60_75 \<mapsto> llmq_10_75 H)\<rparr>\<rparr>
               else g)"
    if "lg = []"
    using UpdateLLMQParams_silent [OF run that net'] .
  have iff: "lg \<noteq> [] \<longleftrightarrow> ?cond"
  proof (cases "lg = []")
    case True
    have "False \<longleftrightarrow> ?cond"
      using update_condition_iff [OF conjunct1 [OF silent [OF True]]] .
    then show ?thesis using True by simp
  next
    case False
    have "True \<longleftrightarrow> ?cond"
      using update_condition_iff [OF conjunct1 [OF logged [OF False]]] .
    then show ?thesis using False by simp
  qed
  have upd: "llmqs (consensus g') = tier_llmqs H (strNetworkID g = TESTNET) n (llmqs (consensus g))
            \<and> lastCheckMnCount g' = n \<and> lastCheckHeight g' = h"
    if "lg \<noteq> []"
    using conjunct2 [OF logged [OF that]] by simp
  have skip: "llmqs (consensus g') LLMQ_50_60 = llmqs (consensus g) LLMQ_50_60
            \<and> llmqs (consensus g') LLMQ_400_60 = llmqs (consensus g) LLMQ_400_60
            \<and> llmqs (consensus g') LLMQ_400_85 = llmqs (consensus g) LLMQ_400_85
            \<and> lastCheckMnCount g' = lastCheckMnCount g
            \<and> lastCheckHeight g' = lastCheckHeight g"
    if "lg = []"
    using conjunct2 [OF silent [OF that]] by simp
  have phase: "IsLLMQsMiningPhase H g h =
              Inr (\<exists>p\<in>set (map_values (llmq_keys H) (llmqs (consensus g))).
                     dkgMiningWindowStart p \<le> cpp_rem h (dkgInterval p)
                     \<and> cpp_rem h (dkgInterval p) \<le> dkgMiningWindowEnd p)"
    if "\<forall>p\<in>ran (llmqs (consensus g)). dkgInterval p \<noteq> 0"
    using that by (rule IsLLMQsMiningPhase_total)
  show ?thesis
  proof (intro conjI)
    show "lg \<noteq> [] \<longleftrightarrow> ?cond" by (rule iff)
  qed (insert upd skip phase, simp_all)
qed


theorem C1_recomputation_witness:
  "strNetworkID example_updated = MAIN
   \<and> UpdateLLMQParams example_headers example_updated 150 101
       = Inr ([UpdateLLMQParamsLog 100 101 2500 150],
              example_updated\<lparr>lastCheckMnCount := 150, lastCheckHeight := 101,
                consensus := (consensus example_updated)\<lparr>llmqs :=
                  tier_llmqs example_headers False 150 (llmqs (consensus example_updated))\<rparr>\<rparr>)
   \<and> lastCheckHeight example_updated < 101
   \<and> lastCheckMnCount example_updated \<noteq> 150
   \<and> IsLLMQsMiningPhase example_headers example_updated 101 = Inr False"
proof -
  have net: "strNetworkID example_updated = MAIN \<or> strNetworkID example_updated = TESTNET"
    by (simp add: example_updated_def example_globals_def)
  have run: "UpdateLLMQParams example_headers example_updated 150 101
       = Inr ([UpdateLLMQParamsLog 100 101 2500 150],
              example_updated\<lparr>lastCheckMnCount := 150, lastCheckHeight := 101,
                consensus := (consensus example_updated)\<lparr>llmqs :=
                  tier_llmqs example_headers False 150 (llmqs (consensus example_updated))\<rparr>\<rparr>)"
    by (simp add: UpdateLLMQParams_def update_condition_def IsLLMQsMiningPhase_def
          IsMiningPhase_def cpp_rem_def example_updated_def example_globals_def
          example_consensus_def example_headers_def example_llmq_def tier_llmqs_def)
  have s: "lastCheckHeight example_updated \<noteq> -1"
    by (simp add: example_updated_def example_globals_def)
  have "(lastCheckHeight example_updated < 101 \<and> lastCheckMnCount example_updated \<noteq> 150
          \<and> IsLLMQsMiningPhase example_headers example_updated 101 = Inr False)
        \<or> lastCheckHeight example_updated = -1"
    using conjunct1 [OF C1_recomputation_condition [OF net run]] by simp
  then show ?thesis using s run by (simp add: example_updated_def example_globals_def)
qed

text \<open>
  C1 as stated fails at the first call of a process, when the last checked height is
  -1: the engine recomputes at height 12, which is inside the mining window of every
  record of the example, and it recomputes when the count equals the last checked
  count 0.
\<close>

theorem C1_recomputation_counterexample:
  "lastCheckHeight (example_globals MAIN) = -1
   \<and> IsLLMQsMiningPhase example_headers (example_globals MAIN) 12 = Inr True
   \<and> UpdateLLMQParams example_headers (example_globals MAIN) 150 12
       = Inr ([UpdateLLMQParamsLog (-1) 12 0 150],
              (example_globals MAIN)\<lparr>lastCheckMnCount := 150, lastCheckHeight := 12,
                consensus := example_consensus\<lparr>llmqs :=
                  tier_llmqs example_headers False 150 (llmqs example_consensus)\<rparr>\<rparr>)
   \<and> tier_llmqs example_headers False 150 (llmqs example_consensus) LLMQ_400_60
       \<noteq> llmqs example_consensus LLMQ_400_60
   \<and> lastCheckMnCount (example_globals MAIN) = 0
   \<and> UpdateLLMQParams example_headers (example_globals MAIN) 0 5
       = Inr ([UpdateLLMQParamsLog (-1) 5 0 0],
              (example_globals MAIN)\<lparr>lastCheckMnCount := 0, lastCheckHeight := 5,
                consensus := example_consensus\<lparr>llmqs :=
                  tier_llmqs example_headers False 0 (llmqs example_consensus)\<rparr>\<rparr>)
   \<and> tier_llmqs example_headers False 0 (llmqs example_consensus) LLMQ_50_60
       \<noteq> llmqs example_consensus LLMQ_50_60"
  by (simp add: UpdateLLMQParams_def update_condition_def IsLLMQsMiningPhase_def
        IsMiningPhase_def cpp_rem_def example_globals_def
        example_consensus_def example_headers_def example_llmq_def tier_llmqs_def)

subsection \<open>The tiers\<close>

text \<open>
  C3. A call that recomputes runs on the main or the test network and installs the
  records of the tier of the count for the roles 50_60, 60_75, 400_60 and 400_85: the
  smallest tier below 80 on the test network and below 100 on the main network, the
  second tier from there to 199, the third from 200 to 599, the largest from 600 on,
  where the role 60_75 gets llmq_20_75 up to the count 2000 and llmq_60_75 above it.
\<close>

theorem C3_tier_records:
  assumes run: "UpdateLLMQParams H g n h = Inr (lg, g')" and lg: "lg \<noteq> []"
  shows "(strNetworkID g = MAIN \<or> strNetworkID g = TESTNET)
       \<and> ((strNetworkID g = TESTNET \<and> n < 80) \<or> (strNetworkID g = MAIN \<and> n < 100) \<longrightarrow>
            llmqs (consensus g') LLMQ_50_60 = Some (llmq_10_60 H)
            \<and> llmqs (consensus g') LLMQ_60_75 = Some (llmq_10_75 H)
            \<and> llmqs (consensus g') LLMQ_400_60 = Some (llmq_20_60 H)
            \<and> llmqs (consensus g') LLMQ_400_85 = Some (llmq_20_85 H))
       \<and> (((strNetworkID g = TESTNET \<and> 80 \<le> n) \<or> (strNetworkID g = MAIN \<and> 100 \<le> n))
              \<and> n < 200 \<longrightarrow>
            llmqs (consensus g') LLMQ_50_60 = Some (llmq_50_60 H)
            \<and> llmqs (consensus g') LLMQ_60_75 = Some (llmq_10_75 H)
            \<and> llmqs (consensus g') LLMQ_400_60 = Some (llmq_40_60 H)
            \<and> llmqs (consensus g') LLMQ_400_85 = Some (llmq_40_85 H))
       \<and> (200 \<le> n \<and> n < 600 \<longrightarrow>
            llmqs (consensus g') LLMQ_50_60 = Some (llmq_50_60 H)
            \<and> llmqs (consensus g') LLMQ_60_75 = Some (llmq_20_75 H)
            \<and> llmqs (consensus g') LLMQ_400_60 = Some (llmq_40_60 H)
            \<and> llmqs (consensus g') LLMQ_400_85 = Some (llmq_40_85 H))
       \<and> (600 \<le> n \<and> n \<le> 2000 \<longrightarrow>
            llmqs (consensus g') LLMQ_50_60 = Some (llmq_50_60 H)
            \<and> llmqs (consensus g') LLMQ_60_75 = Some (llmq_20_75 H)
            \<and> llmqs (consensus g') LLMQ_400_60 = Some (llmq_400_60 H)
            \<and> llmqs (consensus g') LLMQ_400_85 = Some (llmq_400_85 H))
       \<and> (2000 < n \<longrightarrow>
            llmqs (consensus g') LLMQ_50_60 = Some (llmq_50_60 H)
            \<and> llmqs (consensus g') LLMQ_60_75 = Some (llmq_60_75 H)
            \<and> llmqs (consensus g') LLMQ_400_60 = Some (llmq_400_60 H)
            \<and> llmqs (consensus g') LLMQ_400_85 = Some (llmq_400_85 H))"
proof -
  note l = UpdateLLMQParams_logged [OF run lg]
  have net: "strNetworkID g = MAIN \<or> strNetworkID g = TESTNET"
    using conjunct1 [OF l] conjunct1 [OF conjunct2 [OF l]] by (cases "strNetworkID g") simp_all
  have m: "llmqs (consensus g') =
             tier_llmqs H (strNetworkID g = TESTNET) n (llmqs (consensus g))"
    using conjunct2 [OF conjunct2 [OF l]] by simp
  show ?thesis
  proof (cases "strNetworkID g = TESTNET")
    case True
    then show ?thesis by (simp add: m tier_llmqs_def Let_def)
  next
    case False
    then have "strNetworkID g = MAIN" using net by simp
    then show ?thesis by (simp add: m tier_llmqs_def Let_def)
  qed
qed

theorem C3_tier_records_witness:
  "(\<exists>lg g'. UpdateLLMQParams example_headers (example_globals TESTNET) 79 5 = Inr (lg, g')
       \<and> lg \<noteq> []
       \<and> llmqs (consensus g') LLMQ_50_60 = Some (llmq_10_60 example_headers)
       \<and> llmqs (consensus g') LLMQ_60_75 = Some (llmq_10_75 example_headers)
       \<and> llmqs (consensus g') LLMQ_400_60 = Some (llmq_20_60 example_headers)
       \<and> llmqs (consensus g') LLMQ_400_85 = Some (llmq_20_85 example_headers))
   \<and> (\<exists>lg g'. UpdateLLMQParams example_headers (example_globals MAIN) 100 5 = Inr (lg, g')
       \<and> lg \<noteq> []
       \<and> llmqs (consensus g') LLMQ_50_60 = Some (llmq_50_60 example_headers)
       \<and> llmqs (consensus g') LLMQ_60_75 = Some (llmq_10_75 example_headers)
       \<and> llmqs (consensus g') LLMQ_400_60 = Some (llmq_40_60 example_headers)
       \<and> llmqs (consensus g') LLMQ_400_85 = Some (llmq_40_85 example_headers))
   \<and> (\<exists>lg g'. UpdateLLMQParams example_headers (example_globals MAIN) 2001 5 = Inr (lg, g')
       \<and> lg \<noteq> []
       \<and> llmqs (consensus g') LLMQ_50_60 = Some (llmq_50_60 example_headers)
       \<and> llmqs (consensus g') LLMQ_60_75 = Some (llmq_60_75 example_headers)
       \<and> llmqs (consensus g') LLMQ_400_60 = Some (llmq_400_60 example_headers)
       \<and> llmqs (consensus g') LLMQ_400_85 = Some (llmq_400_85 example_headers))"
proof -
  have run: "\<exists>g'. UpdateLLMQParams example_headers (example_globals chain) n 5
                  = Inr ([UpdateLLMQParamsLog (-1) 5 0 n], g')"
    if "chain = MAIN \<or> chain = TESTNET" for chain n
    using that
    by (auto simp: UpdateLLMQParams_def update_condition_def IsLLMQsMiningPhase_def
          IsMiningPhase_def cpp_rem_def example_globals_def
          example_consensus_def example_headers_def example_llmq_def)
  obtain g1 where r1: "UpdateLLMQParams example_headers (example_globals TESTNET) 79 5
                  = Inr ([UpdateLLMQParamsLog (-1) 5 0 79], g1)"
    using run [of TESTNET 79] by auto
  obtain g2 where r2: "UpdateLLMQParams example_headers (example_globals MAIN) 100 5
                  = Inr ([UpdateLLMQParamsLog (-1) 5 0 100], g2)"
    using run [of MAIN 100] by auto
  obtain g3 where r3: "UpdateLLMQParams example_headers (example_globals MAIN) 2001 5
                  = Inr ([UpdateLLMQParamsLog (-1) 5 0 2001], g3)"
    using run [of MAIN 2001] by auto
  have t1: "strNetworkID (example_globals TESTNET) = TESTNET"
    and t2: "strNetworkID (example_globals MAIN) = MAIN"
    by (simp_all add: example_globals_def)
  have c1: "llmqs (consensus g1) LLMQ_50_60 = Some (llmq_10_60 example_headers)
       \<and> llmqs (consensus g1) LLMQ_60_75 = Some (llmq_10_75 example_headers)
       \<and> llmqs (consensus g1) LLMQ_400_60 = Some (llmq_20_60 example_headers)
       \<and> llmqs (consensus g1) LLMQ_400_85 = Some (llmq_20_85 example_headers)"
    using C3_tier_records [OF r1] t1 by simp
  have c2: "llmqs (consensus g2) LLMQ_50_60 = Some (llmq_50_60 example_headers)
       \<and> llmqs (consensus g2) LLMQ_60_75 = Some (llmq_10_75 example_headers)
       \<and> llmqs (consensus g2) LLMQ_400_60 = Some (llmq_40_60 example_headers)
       \<and> llmqs (consensus g2) LLMQ_400_85 = Some (llmq_40_85 example_headers)"
    using C3_tier_records [OF r2] t2 by simp
  have c3: "llmqs (consensus g3) LLMQ_50_60 = Some (llmq_50_60 example_headers)
       \<and> llmqs (consensus g3) LLMQ_60_75 = Some (llmq_60_75 example_headers)
       \<and> llmqs (consensus g3) LLMQ_400_60 = Some (llmq_400_60 example_headers)
       \<and> llmqs (consensus g3) LLMQ_400_85 = Some (llmq_400_85 example_headers)"
    using C3_tier_records [OF r3] t2 by simp
  show ?thesis
  proof (intro conjI)
    show "\<exists>lg g'. UpdateLLMQParams example_headers (example_globals TESTNET) 79 5 = Inr (lg, g')
       \<and> lg \<noteq> []
       \<and> llmqs (consensus g') LLMQ_50_60 = Some (llmq_10_60 example_headers)
       \<and> llmqs (consensus g') LLMQ_60_75 = Some (llmq_10_75 example_headers)
       \<and> llmqs (consensus g') LLMQ_400_60 = Some (llmq_20_60 example_headers)
       \<and> llmqs (consensus g') LLMQ_400_85 = Some (llmq_20_85 example_headers)"
      using r1 c1 by simp
    show "\<exists>lg g'. UpdateLLMQParams example_headers (example_globals MAIN) 100 5 = Inr (lg, g')
       \<and> lg \<noteq> []
       \<and> llmqs (consensus g') LLMQ_50_60 = Some (llmq_50_60 example_headers)
       \<and> llmqs (consensus g') LLMQ_60_75 = Some (llmq_10_75 example_headers)
       \<and> llmqs (consensus g') LLMQ_400_60 = Some (llmq_40_60 example_headers)
       \<and> llmqs (consensus g') LLMQ_400_85 = Some (llmq_40_85 example_headers)"
      using r2 c2 by simp
    show "\<exists>lg g'. UpdateLLMQParams example_headers (example_globals MAIN) 2001 5 = Inr (lg, g')
       \<and> lg \<noteq> []
       \<and> llmqs (consensus g') LLMQ_50_60 = Some (llmq_50_60 example_headers)
       \<and> llmqs (consensus g') LLMQ_60_75 = Some (llmq_60_75 example_headers)
       \<and> llmqs (consensus g') LLMQ_400_60 = Some (llmq_400_60 example_headers)
       \<and> llmqs (consensus g') LLMQ_400_85 = Some (llmq_400_85 example_headers)"
      using r3 c3 by simp
  qed
qed

subsection \<open>The branch without recomputation\<close>

text \<open>
  C4, as the code has it. A call on the main or the test network that does not
  recompute compares the count with 80 on both networks: below 80 it replaces the
  entry of the role 60_75 with llmq_10_75, whatever the height and the mining phase
  are, and from 80 on it leaves the catalog as it is. No other entry changes, and the
  last checked count and height are not updated.
\<close>

theorem C4_skipped_branch:
  assumes net: "strNetworkID g = MAIN \<or> strNetworkID g = TESTNET"
    and run: "UpdateLLMQParams H g n h = Inr ([], g')"
  shows "(n < 80 \<longrightarrow> llmqs (consensus g') LLMQ_60_75 = Some (llmq_10_75 H))
       \<and> (80 \<le> n \<longrightarrow> llmqs (consensus g') = llmqs (consensus g))
       \<and> (\<forall>k. k \<noteq> LLMQ_60_75 \<longrightarrow> llmqs (consensus g') k = llmqs (consensus g) k)
       \<and> lastCheckMnCount g' = lastCheckMnCount g
       \<and> lastCheckHeight g' = lastCheckHeight g"
proof -
  have net': "strNetworkID g \<noteq> DEVNET" "strNetworkID g \<noteq> REGTEST"
    using net by auto
  have g': "g' = (if n < 80
               then g\<lparr>consensus := (consensus g)\<lparr>llmqs :=
                      (llmqs (consensus g))(LLMQ_60_75 \<mapsto> llmq_10_75 H)\<rparr>\<rparr>
               else g)"
    using conjunct2 [OF UpdateLLMQParams_silent [OF run refl net']] .
  show ?thesis
    by (cases "n < 80") (simp_all add: g')
qed

theorem C4_skipped_branch_witness:
  "strNetworkID example_updated = MAIN
   \<and> UpdateLLMQParams example_headers example_updated 50 100
       = Inr ([], example_updated\<lparr>consensus := (consensus example_updated)\<lparr>llmqs :=
                 (llmqs (consensus example_updated))
                   (LLMQ_60_75 \<mapsto> llmq_10_75 example_headers)\<rparr>\<rparr>)
   \<and> llmqs (consensus example_updated) LLMQ_60_75 = Some (llmq_60_75 example_headers)
   \<and> llmqs (consensus (example_updated\<lparr>consensus := (consensus example_updated)\<lparr>llmqs :=
                 (llmqs (consensus example_updated))
                   (LLMQ_60_75 \<mapsto> llmq_10_75 example_headers)\<rparr>\<rparr>)) LLMQ_60_75
       = Some (llmq_10_75 example_headers)
   \<and> lastCheckHeight (example_updated\<lparr>consensus := (consensus example_updated)\<lparr>llmqs :=
                 (llmqs (consensus example_updated))
                   (LLMQ_60_75 \<mapsto> llmq_10_75 example_headers)\<rparr>\<rparr>) = 100"
proof -
  have net: "strNetworkID example_updated = MAIN \<or> strNetworkID example_updated = TESTNET"
    by (simp add: example_updated_def example_globals_def)
  have run: "UpdateLLMQParams example_headers example_updated 50 100
       = Inr ([], example_updated\<lparr>consensus := (consensus example_updated)\<lparr>llmqs :=
                 (llmqs (consensus example_updated))
                   (LLMQ_60_75 \<mapsto> llmq_10_75 example_headers)\<rparr>\<rparr>)"
    by (simp add: UpdateLLMQParams_def update_condition_def example_updated_def
          example_globals_def)
  have before: "llmqs (consensus example_updated) LLMQ_60_75 = Some (llmq_60_75 example_headers)"
    by (simp add: example_updated_def example_globals_def tier_llmqs_def)
  have h: "lastCheckHeight example_updated = 100"
    by (simp add: example_updated_def example_globals_def)
  have m: "strNetworkID example_updated = MAIN"
    by (simp add: example_updated_def example_globals_def)
  show ?thesis
    using C4_skipped_branch [OF net run] m run before h by simp
qed

text \<open>
  C4 as stated fails on the main network with 90 masternodes. The first call of the
  process, with 2500 masternodes at height 100, installs llmq_60_75 for the role
  60_75. A second call at the same height with the count 90 does not recompute, and
  although 90 is below the main network's smallest-tier threshold of 100 it leaves
  llmq_60_75 in place.
\<close>

theorem C4_skipped_branch_counterexample:
  "UpdateLLMQParams example_headers (example_globals MAIN) 2500 100
     = Inr ([UpdateLLMQParamsLog (-1) 100 0 2500], example_updated)
   \<and> UpdateLLMQParams example_headers example_updated 90 100 = Inr ([], example_updated)
   \<and> llmqs (consensus example_updated) LLMQ_60_75 = Some (llmq_60_75 example_headers)
   \<and> llmq_60_75 example_headers \<noteq> llmq_10_75 example_headers"
  by (simp add: UpdateLLMQParams_def update_condition_def IsLLMQsMiningPhase_def
        IsMiningPhase_def cpp_rem_def example_updated_def example_globals_def
        example_consensus_def example_headers_def example_llmq_def tier_llmqs_def)

subsection \<open>Repeating a call\<close>

text \<open>
  C5. After a call that recomputed, the same call again returns and leaves the whole
  state as it is, the catalog included; unless the height is -1 it does not recompute.
\<close>

theorem C5_second_call_changes_nothing:
  assumes run: "UpdateLLMQParams H g n h = Inr (lg, g1)" and lg: "lg \<noteq> []"
  shows "\<exists>lg2 g2. UpdateLLMQParams H g1 n h = Inr (lg2, g2)
           \<and> llmqs (consensus g2) = llmqs (consensus g1)
           \<and> g2 = g1
           \<and> (h \<noteq> -1 \<longrightarrow> lg2 = [])"
proof -
  note l = UpdateLLMQParams_logged [OF run lg]
  let ?t = "strNetworkID g = TESTNET"
  let ?m = "tier_llmqs H ?t n (llmqs (consensus g))"
  have g1: "g1 = g\<lparr>lastCheckMnCount := n, lastCheckHeight := h,
                   consensus := (consensus g)\<lparr>llmqs := ?m\<rparr>\<rparr>"
    using conjunct2 [OF conjunct2 [OF l]] by simp
  have net1: "strNetworkID g1 \<noteq> DEVNET" "strNetworkID g1 \<noteq> REGTEST"
    using l by (simp_all add: g1)
  have id1: "strNetworkID g1 = strNetworkID g" by (simp add: g1)
  have last: "lastCheckHeight g1 = h" "lastCheckMnCount g1 = n" by (simp_all add: g1)
  have cat: "llmqs (consensus g1) = ?m" by (simp add: g1)
  have "\<not> (lastCheckHeight g1 < h \<and> lastCheckMnCount g1 \<noteq> n)"
    using last by simp
  then have cond: "update_condition H g1 n h = Inr (lastCheckHeight g1 = -1)"
    unfolding update_condition_def by (rule if_not_P)
  show ?thesis
  proof (cases "h = -1")
    case True
    then have "update_condition H g1 n h = Inr True" using cond last by simp
    then have "UpdateLLMQParams H g1 n h =
       Inr ([UpdateLLMQParamsLog (lastCheckHeight g1) h (lastCheckMnCount g1) n],
            g1\<lparr>lastCheckMnCount := n, lastCheckHeight := h,
               consensus := (consensus g1)\<lparr>llmqs :=
                 tier_llmqs H (strNetworkID g1 = TESTNET) n (llmqs (consensus g1))\<rparr>\<rparr>)"
      using net1 by (simp add: UpdateLLMQParams_updated)
    moreover have "tier_llmqs H (strNetworkID g1 = TESTNET) n (llmqs (consensus g1))
                     = llmqs (consensus g1)"
      by (simp add: id1 cat tier_llmqs_idem)
    moreover have "g1\<lparr>lastCheckMnCount := n, lastCheckHeight := h,
               consensus := (consensus g1)\<lparr>llmqs := llmqs (consensus g1)\<rparr>\<rparr> = g1"
      using last by simp
    ultimately show ?thesis using True by simp
  next
    case False
    then have "update_condition H g1 n h = Inr False" using cond last by simp
    then have r: "UpdateLLMQParams H g1 n h =
       Inr ([], if n < 80
                then g1\<lparr>consensus := (consensus g1)\<lparr>llmqs :=
                       (llmqs (consensus g1))(LLMQ_60_75 \<mapsto> llmq_10_75 H)\<rparr>\<rparr>
                else g1)"
      using net1 by (simp add: UpdateLLMQParams_skipped)
    have "(llmqs (consensus g1))(LLMQ_60_75 \<mapsto> llmq_10_75 H) = llmqs (consensus g1)"
      if "n < 80"
      using tier_llmqs_below_80 [OF that, of H ?t "llmqs (consensus g)"]
      by (simp add: cat map_upd_triv)
    then have "(if n < 80
                then g1\<lparr>consensus := (consensus g1)\<lparr>llmqs :=
                       (llmqs (consensus g1))(LLMQ_60_75 \<mapsto> llmq_10_75 H)\<rparr>\<rparr>
                else g1) = g1"
      by simp
    then show ?thesis using r by simp
  qed
qed

theorem C5_second_call_witness:
  "UpdateLLMQParams example_headers (example_globals MAIN) 2500 100
     = Inr ([UpdateLLMQParamsLog (-1) 100 0 2500], example_updated)
   \<and> UpdateLLMQParams example_headers example_updated 2500 100 = Inr ([], example_updated)"
proof -
  have run: "UpdateLLMQParams example_headers (example_globals MAIN) 2500 100
     = Inr ([UpdateLLMQParamsLog (-1) 100 0 2500], example_updated)"
    by (simp add: UpdateLLMQParams_def update_condition_def IsLLMQsMiningPhase_def
        IsMiningPhase_def cpp_rem_def example_updated_def example_globals_def
        example_consensus_def example_headers_def example_llmq_def)
  have "\<exists>lg2 g2. UpdateLLMQParams example_headers example_updated 2500 100 = Inr (lg2, g2)
           \<and> llmqs (consensus g2) = llmqs (consensus example_updated)
           \<and> g2 = example_updated
           \<and> ((100::int) \<noteq> -1 \<longrightarrow> lg2 = [])"
    using C5_second_call_changes_nothing [OF run] by simp
  then have "UpdateLLMQParams example_headers example_updated 2500 100 = Inr ([], example_updated)"
    by auto
  then show ?thesis using run by simp
qed

subsection \<open>What the engine can change\<close>

text \<open>
  C10. A call that returns changes at most the catalog and the two statics: the
  resulting state is the given one with these three replaced, so the network, the
  deployment table, the four role designations and every further field of the
  consensus parameters are the same. In the catalog only the entries of the roles
  50_60, 60_75, 400_60 and 400_85 can differ; the entry of 100_67 is the same. On the
  devnet and on regtest the state is returned as it is.
\<close>

theorem C10_engine_frame:
  assumes run: "UpdateLLMQParams H g n h = Inr (lg, g')"
  shows "g' = g\<lparr>consensus := (consensus g)\<lparr>llmqs := llmqs (consensus g')\<rparr>,
                 lastCheckMnCount := lastCheckMnCount g',
                 lastCheckHeight := lastCheckHeight g'\<rparr>
       \<and> (\<forall>k. k \<noteq> LLMQ_50_60 \<and> k \<noteq> LLMQ_60_75 \<and> k \<noteq> LLMQ_400_60 \<and> k \<noteq> LLMQ_400_85 \<longrightarrow>
              llmqs (consensus g') k = llmqs (consensus g) k)
       \<and> llmqs (consensus g') LLMQ_100_67 = llmqs (consensus g) LLMQ_100_67
       \<and> llmqTypeChainLocks (consensus g') = llmqTypeChainLocks (consensus g)
       \<and> llmqTypeDIP0024InstantSend (consensus g') = llmqTypeDIP0024InstantSend (consensus g)
       \<and> llmqTypePlatform (consensus g') = llmqTypePlatform (consensus g)
       \<and> llmqTypeMnhf (consensus g') = llmqTypeMnhf (consensus g)
       \<and> vDeployments (consensus g') = vDeployments (consensus g)
       \<and> Params.more (consensus g') = Params.more (consensus g)
       \<and> strNetworkID g' = strNetworkID g
       \<and> (strNetworkID g = DEVNET \<or> strNetworkID g = REGTEST \<longrightarrow> g' = g \<and> lg = [])"
proof -
  consider (excluded) "strNetworkID g = DEVNET \<or> strNetworkID g = REGTEST"
    | (logged) "strNetworkID g \<noteq> DEVNET" "strNetworkID g \<noteq> REGTEST" "lg \<noteq> []"
    | (silent) "strNetworkID g \<noteq> DEVNET" "strNetworkID g \<noteq> REGTEST" "lg = []"
    by auto
  then show ?thesis
  proof cases
    case excluded
    then have "UpdateLLMQParams H g n h = Inr ([], g)" by (rule UpdateLLMQParams_excluded)
    then have "g' = g" "lg = []" using run by simp_all
    then show ?thesis by simp
  next
    case logged
    have g': "g' = g\<lparr>lastCheckMnCount := n, lastCheckHeight := h,
                 consensus := (consensus g)\<lparr>llmqs :=
                   tier_llmqs H (strNetworkID g = TESTNET) n (llmqs (consensus g))\<rparr>\<rparr>"
      using conjunct2 [OF conjunct2 [OF UpdateLLMQParams_logged [OF run logged(3)]]] by simp
    show ?thesis
      using logged(1,2) by (simp add: g' tier_llmqs_other)
  next
    case silent
    have g': "g' = (if n < 80
               then g\<lparr>consensus := (consensus g)\<lparr>llmqs :=
                      (llmqs (consensus g))(LLMQ_60_75 \<mapsto> llmq_10_75 H)\<rparr>\<rparr>
               else g)"
      using conjunct2 [OF UpdateLLMQParams_silent [OF run silent(3) silent(1,2)]] .
    show ?thesis
      using silent(1,2) by (cases "n < 80") (simp_all add: g')
  qed
qed

theorem C10_engine_frame_witness:
  "UpdateLLMQParams example_headers (example_globals MAIN) 2500 100
     = Inr ([UpdateLLMQParamsLog (-1) 100 0 2500], example_updated)
   \<and> llmqs (consensus example_updated) LLMQ_100_67
       = llmqs (consensus (example_globals MAIN)) LLMQ_100_67
   \<and> llmqTypePlatform (consensus example_updated) = LLMQ_100_67
   \<and> UpdateLLMQParams example_headers (example_globals REGTEST) 2500 100
       = Inr ([], example_globals REGTEST)"
proof -
  have run: "UpdateLLMQParams example_headers (example_globals MAIN) 2500 100
     = Inr ([UpdateLLMQParamsLog (-1) 100 0 2500], example_updated)"
    by (simp add: UpdateLLMQParams_def update_condition_def IsLLMQsMiningPhase_def
        IsMiningPhase_def cpp_rem_def example_updated_def example_globals_def
        example_consensus_def example_headers_def example_llmq_def)
  have reg: "UpdateLLMQParams example_headers (example_globals REGTEST) 2500 100
       = Inr ([], example_globals REGTEST)"
    by (simp add: UpdateLLMQParams_def example_globals_def)
  note f = C10_engine_frame [OF run]
  have a: "llmqs (consensus example_updated) LLMQ_100_67
       = llmqs (consensus (example_globals MAIN)) LLMQ_100_67"
    using f by simp
  have "llmqTypePlatform (consensus example_updated)
       = llmqTypePlatform (consensus (example_globals MAIN))"
    using f by simp
  then have b: "llmqTypePlatform (consensus example_updated) = LLMQ_100_67"
    by (simp add: example_globals_def example_consensus_def)
  show ?thesis using run reg a b by simp
qed

subsection \<open>The overrides of the quorum roles\<close>

lemma UpdateDevnetLLMQ_name_loop_last:
  "UpdateDevnetLLMQ_name_loop ps s t =
     (case filter (\<lambda>p. name p = s) ps of [] \<Rightarrow> t | q # qs \<Rightarrow> type (last (q # qs)))"
proof (induction ps arbitrary: t)
  case Nil
  show ?case by simp
next
  case (Cons p ps)
  show ?case
  proof (cases "name p = s")
    case True
    then show ?thesis
      using Cons.IH [of "type p"] by (simp split: list.splits)
  next
    case False
    then show ?thesis using Cons.IH [of t] by simp
  qed
qed

lemma UpdateDevnetLLMQChainLocks_loop_rejects:
  "\<exists>p\<in>set ps. name p = s \<and> useRotation p \<Longrightarrow>
   UpdateDevnetLLMQChainLocks_loop ps s t =
     Inl (runtime_error ''LLMQ type specified for -llmqchainlocks must NOT use rotation'')"
proof (induction ps arbitrary: t)
  case Nil
  then show ?case by simp
next
  case (Cons p ps)
  show ?case
  proof (cases "name p = s \<and> useRotation p")
    case True
    then show ?thesis by simp
  next
    case False
    then have "\<exists>q\<in>set ps. name q = s \<and> useRotation q" using Cons.prems by auto
    then show ?thesis using Cons.IH False by simp
  qed
qed

lemma UpdateDevnetLLMQChainLocks_loop_accepts:
  "\<forall>p\<in>set ps. name p = s \<longrightarrow> \<not> useRotation p \<Longrightarrow>
   UpdateDevnetLLMQChainLocks_loop ps s t = Inr (UpdateDevnetLLMQ_name_loop ps s t)"
  by (induction ps arbitrary: t) simp_all

lemma UpdateDevnetLLMQInstantSendDIP0024_loop_rejects:
  "\<exists>p\<in>set ps. name p = s \<and> \<not> useRotation p \<Longrightarrow>
   UpdateDevnetLLMQInstantSendDIP0024_loop ps s t =
     Inl (runtime_error ''LLMQ type specified for -llmqinstantsenddip0024 must use rotation'')"
proof (induction ps arbitrary: t)
  case Nil
  then show ?case by simp
next
  case (Cons p ps)
  show ?case
  proof (cases "name p = s \<and> \<not> useRotation p")
    case True
    then show ?thesis by simp
  next
    case False
    then have "\<exists>q\<in>set ps. name q = s \<and> \<not> useRotation q" using Cons.prems by auto
    then show ?thesis using Cons.IH False by simp
  qed
qed

lemma UpdateDevnetLLMQInstantSendDIP0024_loop_accepts:
  "\<forall>p\<in>set ps. name p = s \<longrightarrow> useRotation p \<Longrightarrow>
   UpdateDevnetLLMQInstantSendDIP0024_loop ps s t = Inr (UpdateDevnetLLMQ_name_loop ps s t)"
  by (induction ps arbitrary: t) simp_all

text \<open>
  C8, as the code has it. With the assertion on the role's present type passed: the
  override of the chain-lock type fails with its rotation error when a record named
  by the argument uses rotation, and the override of the instant-send type fails with
  its rotation error when such a record does not use rotation. The overrides of the
  platform type and of the masternode-hard-fork type do not look at rotation: when
  records are named by the argument and the last of them has a type other than
  LLMQ_NONE, they succeed and designate that type, whether the records use rotation
  or not.
\<close>

theorem C8_role_overrides:
  "(GetLLMQ H c (llmqTypeChainLocks c) \<noteq> None
      \<and> (\<exists>p\<in>set (map_values (llmq_keys H) (llmqs c)). name p = s \<and> useRotation p) \<longrightarrow>
      UpdateDevnetLLMQChainLocksFromArgs H c (Some s) =
        Inl (runtime_error ''LLMQ type specified for -llmqchainlocks must NOT use rotation''))
   \<and> (GetLLMQ H c (llmqTypeDIP0024InstantSend c) \<noteq> None
      \<and> (\<exists>p\<in>set (map_values (llmq_keys H) (llmqs c)). name p = s \<and> \<not> useRotation p) \<longrightarrow>
      UpdateDevnetLLMQInstantSendDIP0024FromArgs H c (Some s) =
        Inl (runtime_error ''LLMQ type specified for -llmqinstantsenddip0024 must use rotation''))
   \<and> (GetLLMQ H c (llmqTypePlatform c) \<noteq> None
      \<and> filter (\<lambda>p. name p = s) (map_values (llmq_keys H) (llmqs c)) = q # qs
      \<and> type (last (q # qs)) \<noteq> LLMQ_NONE \<longrightarrow>
      UpdateDevnetLLMQPlatformFromArgs H c (Some s) =
        Inr (c\<lparr>llmqTypePlatform := type (last (q # qs))\<rparr>))
   \<and> (GetLLMQ H c (llmqTypeMnhf c) \<noteq> None
      \<and> filter (\<lambda>p. name p = s) (map_values (llmq_keys H) (llmqs c)) = q # qs
      \<and> type (last (q # qs)) \<noteq> LLMQ_NONE \<longrightarrow>
      UpdateDevnetLLMQMnhfFromArgs H c (Some s) =
        Inr (c\<lparr>llmqTypeMnhf := type (last (q # qs))\<rparr>))"
proof (intro conjI impI)
  assume a: "GetLLMQ H c (llmqTypeChainLocks c) \<noteq> None
      \<and> (\<exists>p\<in>set (map_values (llmq_keys H) (llmqs c)). name p = s \<and> useRotation p)"
  have "UpdateDevnetLLMQChainLocks_loop (map_values (llmq_keys H) (llmqs c)) s LLMQ_NONE =
     Inl (runtime_error ''LLMQ type specified for -llmqchainlocks must NOT use rotation'')"
    using conjunct2 [OF a] by (rule UpdateDevnetLLMQChainLocks_loop_rejects)
  then show "UpdateDevnetLLMQChainLocksFromArgs H c (Some s) =
        Inl (runtime_error ''LLMQ type specified for -llmqchainlocks must NOT use rotation'')"
    using conjunct1 [OF a]
    by (cases "GetLLMQ H c (llmqTypeChainLocks c)")
       (simp_all add: UpdateDevnetLLMQChainLocksFromArgs_def)
next
  assume a: "GetLLMQ H c (llmqTypeDIP0024InstantSend c) \<noteq> None
      \<and> (\<exists>p\<in>set (map_values (llmq_keys H) (llmqs c)). name p = s \<and> \<not> useRotation p)"
  have "UpdateDevnetLLMQInstantSendDIP0024_loop (map_values (llmq_keys H) (llmqs c)) s LLMQ_NONE =
     Inl (runtime_error ''LLMQ type specified for -llmqinstantsenddip0024 must use rotation'')"
    using conjunct2 [OF a] by (rule UpdateDevnetLLMQInstantSendDIP0024_loop_rejects)
  then show "UpdateDevnetLLMQInstantSendDIP0024FromArgs H c (Some s) =
        Inl (runtime_error ''LLMQ type specified for -llmqinstantsenddip0024 must use rotation'')"
    using conjunct1 [OF a]
    by (cases "GetLLMQ H c (llmqTypeDIP0024InstantSend c)")
       (simp_all add: UpdateDevnetLLMQInstantSendDIP0024FromArgs_def)
next
  assume a: "GetLLMQ H c (llmqTypePlatform c) \<noteq> None
      \<and> filter (\<lambda>p. name p = s) (map_values (llmq_keys H) (llmqs c)) = q # qs
      \<and> type (last (q # qs)) \<noteq> LLMQ_NONE"
  have "UpdateDevnetLLMQ_name_loop (map_values (llmq_keys H) (llmqs c)) s LLMQ_NONE
          = type (last (q # qs))"
    using a by (simp add: UpdateDevnetLLMQ_name_loop_last del: last.simps)
  then show "UpdateDevnetLLMQPlatformFromArgs H c (Some s) =
        Inr (c\<lparr>llmqTypePlatform := type (last (q # qs))\<rparr>)"
    using a
    by (cases "GetLLMQ H c (llmqTypePlatform c)")
       (simp_all add: UpdateDevnetLLMQPlatformFromArgs_def del: last.simps)
next
  assume a: "GetLLMQ H c (llmqTypeMnhf c) \<noteq> None
      \<and> filter (\<lambda>p. name p = s) (map_values (llmq_keys H) (llmqs c)) = q # qs
      \<and> type (last (q # qs)) \<noteq> LLMQ_NONE"
  have "UpdateDevnetLLMQ_name_loop (map_values (llmq_keys H) (llmqs c)) s LLMQ_NONE
          = type (last (q # qs))"
    using a by (simp add: UpdateDevnetLLMQ_name_loop_last del: last.simps)
  then show "UpdateDevnetLLMQMnhfFromArgs H c (Some s) =
        Inr (c\<lparr>llmqTypeMnhf := type (last (q # qs))\<rparr>)"
    using a
    by (cases "GetLLMQ H c (llmqTypeMnhf c)")
       (simp_all add: UpdateDevnetLLMQMnhfFromArgs_def del: last.simps)
qed

lemma example_devnet_values:
  "map_values (llmq_keys example_headers) (llmqs example_devnet) =
     [llmq_50_60 example_headers, llmq_20_60 example_headers, llmq_20_85 example_headers,
      example_llmq LLMQ_100_67 ''llmq_100_67'' False, llmq_60_75 example_headers,
      example_llmq LLMQ_DEVNET ''llmq_devnet'' False,
      example_llmq LLMQ_DEVNET_DIP0024 ''llmq_devnet_dip0024'' True,
      example_llmq LLMQ_DEVNET_PLATFORM ''llmq_devnet_platform'' False]"
  by (simp add: example_headers_def example_devnet_def)

lemma example_devnet_roles:
  "llmqTypeChainLocks example_devnet = LLMQ_DEVNET"
  "llmqTypeDIP0024InstantSend example_devnet = LLMQ_DEVNET_DIP0024"
  "llmqTypePlatform example_devnet = LLMQ_DEVNET_PLATFORM"
  "llmqTypeMnhf example_devnet = LLMQ_DEVNET"
  by (simp_all add: example_devnet_def)

theorem C8_role_overrides_witness:
  "UpdateDevnetLLMQChainLocksFromArgs example_headers example_devnet (Some ''llmq_devnet_dip0024'')
     = Inl (runtime_error ''LLMQ type specified for -llmqchainlocks must NOT use rotation'')
   \<and> UpdateDevnetLLMQInstantSendDIP0024FromArgs example_headers example_devnet (Some ''llmq_devnet'')
     = Inl (runtime_error ''LLMQ type specified for -llmqinstantsenddip0024 must use rotation'')"
proof -
  note t = C8_role_overrides [of example_headers example_devnet]
  have "UpdateDevnetLLMQChainLocksFromArgs example_headers example_devnet
          (Some ''llmq_devnet_dip0024'')
     = Inl (runtime_error ''LLMQ type specified for -llmqchainlocks must NOT use rotation'')"
    using conjunct1 [OF t [of "''llmq_devnet_dip0024''"]]
    by (simp add: GetLLMQ_def example_devnet_values example_devnet_roles)
       (simp add: example_llmq_def example_headers_def)
  moreover have "UpdateDevnetLLMQInstantSendDIP0024FromArgs example_headers example_devnet
          (Some ''llmq_devnet'')
     = Inl (runtime_error ''LLMQ type specified for -llmqinstantsenddip0024 must use rotation'')"
    using conjunct1 [OF conjunct2 [OF t [of "''llmq_devnet''"]]]
    by (simp add: GetLLMQ_def example_devnet_values example_devnet_roles)
       (simp add: example_llmq_def example_headers_def)
  ultimately show ?thesis by simp
qed

lemma example_devnet_selected:
  "UpdateDevnetLLMQ_name_loop (map_values (llmq_keys example_headers) (llmqs example_devnet))
     ''llmq_devnet_dip0024'' LLMQ_NONE = LLMQ_DEVNET_DIP0024"
  "UpdateDevnetLLMQ_name_loop (map_values (llmq_keys example_headers) (llmqs example_devnet))
     ''llmq_devnet'' LLMQ_NONE = LLMQ_DEVNET"
  unfolding example_devnet_values
  by (simp_all add: example_llmq_def example_headers_def)

lemma example_devnet_present:
  "GetLLMQ example_headers example_devnet LLMQ_DEVNET
     = Some (example_llmq LLMQ_DEVNET ''llmq_devnet'' False)"
  "GetLLMQ example_headers example_devnet LLMQ_DEVNET_PLATFORM
     = Some (example_llmq LLMQ_DEVNET_PLATFORM ''llmq_devnet_platform'' False)"
  unfolding GetLLMQ_def example_devnet_values
  by (simp_all add: example_llmq_def example_headers_def)

text \<open>
  C8 as stated fails for the platform and the masternode-hard-fork overrides: each
  accepts the name of the record that uses rotation and the name of a record that
  does not, so a type of either rotation property is assigned to the role.
\<close>

theorem C8_role_overrides_counterexample:
  "useRotation (example_llmq LLMQ_DEVNET_DIP0024 ''llmq_devnet_dip0024'' True)
   \<and> \<not> useRotation (example_llmq LLMQ_DEVNET ''llmq_devnet'' False)
   \<and> UpdateDevnetLLMQPlatformFromArgs example_headers example_devnet (Some ''llmq_devnet_dip0024'')
       = Inr (example_devnet\<lparr>llmqTypePlatform := LLMQ_DEVNET_DIP0024\<rparr>)
   \<and> UpdateDevnetLLMQPlatformFromArgs example_headers example_devnet (Some ''llmq_devnet'')
       = Inr (example_devnet\<lparr>llmqTypePlatform := LLMQ_DEVNET\<rparr>)
   \<and> UpdateDevnetLLMQMnhfFromArgs example_headers example_devnet (Some ''llmq_devnet_dip0024'')
       = Inr (example_devnet\<lparr>llmqTypeMnhf := LLMQ_DEVNET_DIP0024\<rparr>)
   \<and> UpdateDevnetLLMQMnhfFromArgs example_headers example_devnet (Some ''llmq_devnet'')
       = Inr (example_devnet\<lparr>llmqTypeMnhf := LLMQ_DEVNET\<rparr>)"
proof (intro conjI)
  show "useRotation (example_llmq LLMQ_DEVNET_DIP0024 ''llmq_devnet_dip0024'' True)"
    by (simp add: example_llmq_def)
  show "\<not> useRotation (example_llmq LLMQ_DEVNET ''llmq_devnet'' False)"
    by (simp add: example_llmq_def)
  show "UpdateDevnetLLMQPlatformFromArgs example_headers example_devnet
          (Some ''llmq_devnet_dip0024'')
       = Inr (example_devnet\<lparr>llmqTypePlatform := LLMQ_DEVNET_DIP0024\<rparr>)"
    by (simp add: UpdateDevnetLLMQPlatformFromArgs_def example_devnet_roles
          example_devnet_present example_devnet_selected)
  show "UpdateDevnetLLMQPlatformFromArgs example_headers example_devnet (Some ''llmq_devnet'')
       = Inr (example_devnet\<lparr>llmqTypePlatform := LLMQ_DEVNET\<rparr>)"
    by (simp add: UpdateDevnetLLMQPlatformFromArgs_def example_devnet_roles
          example_devnet_present example_devnet_selected)
  show "UpdateDevnetLLMQMnhfFromArgs example_headers example_devnet
          (Some ''llmq_devnet_dip0024'')
       = Inr (example_devnet\<lparr>llmqTypeMnhf := LLMQ_DEVNET_DIP0024\<rparr>)"
    by (simp add: UpdateDevnetLLMQMnhfFromArgs_def example_devnet_roles
          example_devnet_present example_devnet_selected)
  show "UpdateDevnetLLMQMnhfFromArgs example_headers example_devnet (Some ''llmq_devnet'')
       = Inr (example_devnet\<lparr>llmqTypeMnhf := LLMQ_DEVNET\<rparr>)"
    by (simp add: UpdateDevnetLLMQMnhfFromArgs_def example_devnet_roles
          example_devnet_present example_devnet_selected)
qed

subsection \<open>The overrides of the deployment table\<close>

lemma SplitString_not_Nil: "SplitString s sep \<noteq> []"
  by (induction s) (simp_all split: list.splits)

lemma length_SplitString:
  "length (SplitString s sep) = Suc (length (filter (\<lambda>c. c = sep) s))"
proof (induction s)
  case Nil
  show ?case by simp
next
  case (Cons c cs)
  then show ?case
    using SplitString_not_Nil [of cs sep]
    by (cases "SplitString cs sep") simp_all
qed

lemma find_deployment_None: "find_deployment ns j s = None \<longleftrightarrow> s \<notin> set ns"
  by (induction ns arbitrary: j) auto

lemma find_deployment_first:
  "j < length ns \<Longrightarrow> ns ! j = s \<Longrightarrow> \<forall>i<j. ns ! i \<noteq> s \<Longrightarrow>
   find_deployment ns k s = Some (k + j)"
proof (induction ns arbitrary: j k)
  case Nil
  then show ?case by simp
next
  case (Cons n ns)
  show ?case
  proof (cases j)
    case 0
    then show ?thesis using Cons.prems by simp
  next
    case (Suc j')
    have "n \<noteq> s" using Cons.prems(3) Suc by (metis nth_Cons_0 zero_less_Suc)
    moreover have "find_deployment ns (Suc k) s = Some (Suc k + j')"
    proof (rule Cons.IH)
      show "j' < length ns" using Cons.prems(1) Suc by simp
      show "ns ! j' = s" using Cons.prems(2) Suc by simp
      show "\<forall>i<j'. ns ! i \<noteq> s"
      proof (intro allI impI)
        fix i assume "i < j'"
        then have "Suc i < j" using Suc by simp
        then have "(n # ns) ! Suc i \<noteq> s" using Cons.prems(3) by blast
        then show "ns ! i \<noteq> s" by simp
      qed
    qed
    ultimately show ?thesis using Suc by simp
  qed
qed

lemma UpdateActivationParametersFromArgs_single:
  "UpdateActivationParametersFromArgs H c [str] = vbparams_entry H c str"
  by (cases "vbparams_entry H c str") simp_all

lemma vbparams_entry_malformed:
  assumes "length (SplitString str CHR '':'') \<noteq> 3"
    and "length (SplitString str CHR '':'') \<noteq> 5"
    and "length (SplitString str CHR '':'') \<noteq> 8"
  shows "vbparams_entry H c str = Inl vbparams_malformed"
  using assms by (simp add: vbparams_entry_def Let_def)

lemma vbparams_entry_8:
  assumes "length (SplitString str CHR '':'') = 8"
    and "ParseInt64 H (SplitString str CHR '':'' ! 1) = Some a1"
    and "ParseInt64 H (SplitString str CHR '':'' ! 2) = Some a2"
    and "ParseInt64 H (SplitString str CHR '':'' ! 3) = Some a3"
    and "ParseInt64 H (SplitString str CHR '':'' ! 4) = Some a4"
    and "ParseInt64 H (SplitString str CHR '':'' ! 5) = Some a5"
    and "ParseInt64 H (SplitString str CHR '':'' ! 6) = Some a6"
    and "ParseInt64 H (SplitString str CHR '':'' ! 7) = Some a7"
    and "find_deployment (VersionBitsDeploymentInfo H) 0 (SplitString str CHR '':'' ! 0) = Some j"
  shows "vbparams_entry H c str =
           Inr (UpdateVersionBitsParameters c j a1 a2 a3 a4 a5 a6 a7)"
  using assms by (simp add: vbparams_entry_def Let_def bind_failure_def parse_field_def)

lemma vbparams_entry_unparseable:
  assumes len: "length (SplitString str CHR '':'') = 3 \<or> length (SplitString str CHR '':'') = 5
               \<or> length (SplitString str CHR '':'') = 8"
    and i: "1 \<le> i" "i < length (SplitString str CHR '':'')"
    and bad: "ParseInt64 H (SplitString str CHR '':'' ! i) = None"
    and first: "\<forall>k. 1 \<le> k \<and> k < i \<longrightarrow> ParseInt64 H (SplitString str CHR '':'' ! k) \<noteq> None"
  shows "vbparams_entry H c str =
     Inl (runtime_error (''Invalid ''
            @ [''nStartTime'', ''nTimeout'', ''nWindowSize'', ''nThresholdStart'',
               ''nThresholdMin'', ''nFalloffCoeff'', ''nUseEHF''] ! (i - 1)
            @ '' ('' @ SplitString str CHR '':'' ! i @ '')''))"
proof -
  let ?v = "SplitString str CHR '':''"
  have p: "k < i \<Longrightarrow> ParseInt64 H (?v ! k) \<noteq> None" if "1 \<le> k" for k
    using first that by blast
  note ps = p [of 1] p [of 2] p [of 3] p [of 4] p [of 5] p [of 6]
  have "i = 1 \<or> i = 2 \<or> i = 3 \<or> i = 4 \<or> i = 5 \<or> i = 6 \<or> i = 7"
    using len i by arith
  then show ?thesis
    using len i(2) bad ps
    by (elim disjE)
       (auto simp: vbparams_entry_def Let_def bind_failure_def parse_field_def
          split: option.splits)
qed


lemma vbparams_entry_unknown:
  assumes len: "length (SplitString str CHR '':'') = 3 \<or> length (SplitString str CHR '':'') = 5
               \<or> length (SplitString str CHR '':'') = 8"
    and parse: "\<forall>k. 1 \<le> k \<and> k < length (SplitString str CHR '':'') \<longrightarrow>
                  ParseInt64 H (SplitString str CHR '':'' ! k) \<noteq> None"
    and unknown: "SplitString str CHR '':'' ! 0 \<notin> set (VersionBitsDeploymentInfo H)"
  shows "vbparams_entry H c str =
     Inl (runtime_error (''Invalid deployment ('' @ SplitString str CHR '':'' ! 0 @ '')''))"
proof -
  let ?v = "SplitString str CHR '':''"
  have p: "k < length ?v \<Longrightarrow> ParseInt64 H (?v ! k) \<noteq> None" if "1 \<le> k" for k
    using parse that by blast
  note ps = p [of 1] p [of 2] p [of 3] p [of 4] p [of 5] p [of 6] p [of 7]
  have f: "find_deployment (VersionBitsDeploymentInfo H) 0 (?v ! 0) = None"
    using unknown by (simp add: find_deployment_None)
  show ?thesis
    using len ps f
    by (elim disjE)
       (auto simp: vbparams_entry_def Let_def bind_failure_def parse_field_def
          split: option.splits)
qed

lemma UpdateVersionBitsParameters_effect:
  assumes "j < length (vDeployments c)"
  shows "UpdateVersionBitsParameters c j a1 a2 a3 a4 a5 a6 a7
           = c\<lparr>vDeployments := vDeployments (UpdateVersionBitsParameters c j a1 a2 a3 a4 a5 a6 a7)\<rparr>
       \<and> length (vDeployments (UpdateVersionBitsParameters c j a1 a2 a3 a4 a5 a6 a7))
           = length (vDeployments c)
       \<and> (\<forall>k<length (vDeployments c). k \<noteq> j \<longrightarrow>
             vDeployments (UpdateVersionBitsParameters c j a1 a2 a3 a4 a5 a6 a7) ! k
               = vDeployments c ! k)
       \<and> vDeployments (UpdateVersionBitsParameters c j a1 a2 a3 a4 a5 a6 a7) ! j
           = (vDeployments c ! j)
               \<lparr>nStartTime := a1, nTimeout := a2,
                nWindowSize := (if a3 = -1 then nWindowSize (vDeployments c ! j) else a3),
                nThresholdStart := (if a4 = -1 then nThresholdStart (vDeployments c ! j) else a4),
                nThresholdMin := (if a5 = -1 then nThresholdMin (vDeployments c ! j) else a5),
                nFalloffCoeff := (if a6 = -1 then nFalloffCoeff (vDeployments c ! j) else a6),
                useEHF := (if a7 = -1 then useEHF (vDeployments c ! j) else a7 > 0)\<rparr>"
  using assms
  by (simp add: UpdateVersionBitsParameters_def UpdateVersionBitsParameters_slot_def Let_def)

text \<open>
  C9, as the code has it, for one value of -vbparams whose fields are \<open>v\<close>. A count of
  fields other than 3, 5 and 8 is the format error. With such a count, the first
  field after the name that does not parse gives the error that names the parameter
  and quotes the field. When every such field parses and the name is none of the
  deployment names, the error quotes the name. With 8 fields that parse and the name
  of slot \<open>j\<close> (the first slot with that name) the table is updated in slot \<open>j\<close> only:
  start and timeout are the values given; window, the two thresholds and the falloff
  coefficient are the values given unless the value is -1, which keeps the field;
  useEHF is whether the value is positive, unless the value is -1, which keeps it; the
  bit of the slot, the other slots and every other field of the parameters are
  unchanged.
\<close>

theorem C9_vbparams_override:
  assumes v: "SplitString str CHR '':'' = v"
  shows "(length v \<noteq> 3 \<and> length v \<noteq> 5 \<and> length v \<noteq> 8 \<longrightarrow>
            UpdateActivationParametersFromArgs H c [str] = Inl vbparams_malformed)
       \<and> ((length v = 3 \<or> length v = 5 \<or> length v = 8)
            \<and> 1 \<le> i \<and> i < length v \<and> ParseInt64 H (v ! i) = None
            \<and> (\<forall>k. 1 \<le> k \<and> k < i \<longrightarrow> ParseInt64 H (v ! k) \<noteq> None) \<longrightarrow>
            UpdateActivationParametersFromArgs H c [str] =
              Inl (runtime_error (''Invalid ''
                     @ [''nStartTime'', ''nTimeout'', ''nWindowSize'', ''nThresholdStart'',
                        ''nThresholdMin'', ''nFalloffCoeff'', ''nUseEHF''] ! (i - 1)
                     @ '' ('' @ v ! i @ '')'')))
       \<and> ((length v = 3 \<or> length v = 5 \<or> length v = 8)
            \<and> (\<forall>k. 1 \<le> k \<and> k < length v \<longrightarrow> ParseInt64 H (v ! k) \<noteq> None)
            \<and> v ! 0 \<notin> set (VersionBitsDeploymentInfo H) \<longrightarrow>
            UpdateActivationParametersFromArgs H c [str] =
              Inl (runtime_error (''Invalid deployment ('' @ v ! 0 @ '')'')))
       \<and> (length v = 8
            \<and> ParseInt64 H (v ! 1) = Some a1 \<and> ParseInt64 H (v ! 2) = Some a2
            \<and> ParseInt64 H (v ! 3) = Some a3 \<and> ParseInt64 H (v ! 4) = Some a4
            \<and> ParseInt64 H (v ! 5) = Some a5 \<and> ParseInt64 H (v ! 6) = Some a6
            \<and> ParseInt64 H (v ! 7) = Some a7
            \<and> j < length (VersionBitsDeploymentInfo H)
            \<and> VersionBitsDeploymentInfo H ! j = v ! 0
            \<and> (\<forall>k<j. VersionBitsDeploymentInfo H ! k \<noteq> v ! 0)
            \<and> length (vDeployments c) = length (VersionBitsDeploymentInfo H) \<longrightarrow>
            (\<exists>c'. UpdateActivationParametersFromArgs H c [str] = Inr c'
               \<and> c' = c\<lparr>vDeployments := vDeployments c'\<rparr>
               \<and> length (vDeployments c') = length (vDeployments c)
               \<and> (\<forall>k<length (vDeployments c). k \<noteq> j \<longrightarrow>
                     vDeployments c' ! k = vDeployments c ! k)
               \<and> vDeployments c' ! j
                   = (vDeployments c ! j)
                       \<lparr>nStartTime := a1, nTimeout := a2,
                        nWindowSize :=
                          (if a3 = -1 then nWindowSize (vDeployments c ! j) else a3),
                        nThresholdStart :=
                          (if a4 = -1 then nThresholdStart (vDeployments c ! j) else a4),
                        nThresholdMin :=
                          (if a5 = -1 then nThresholdMin (vDeployments c ! j) else a5),
                        nFalloffCoeff :=
                          (if a6 = -1 then nFalloffCoeff (vDeployments c ! j) else a6),
                        useEHF := (if a7 = -1 then useEHF (vDeployments c ! j) else a7 > 0)\<rparr>))"
proof (intro conjI impI)
  assume "length v \<noteq> 3 \<and> length v \<noteq> 5 \<and> length v \<noteq> 8"
  then show "UpdateActivationParametersFromArgs H c [str] = Inl vbparams_malformed"
    unfolding UpdateActivationParametersFromArgs_single v [symmetric]
    by (simp add: vbparams_entry_malformed)
next
  assume a: "(length v = 3 \<or> length v = 5 \<or> length v = 8)
            \<and> 1 \<le> i \<and> i < length v \<and> ParseInt64 H (v ! i) = None
            \<and> (\<forall>k. 1 \<le> k \<and> k < i \<longrightarrow> ParseInt64 H (v ! k) \<noteq> None)"
  have "vbparams_entry H c str =
     Inl (runtime_error (''Invalid ''
            @ [''nStartTime'', ''nTimeout'', ''nWindowSize'', ''nThresholdStart'',
               ''nThresholdMin'', ''nFalloffCoeff'', ''nUseEHF''] ! (i - 1)
            @ '' ('' @ SplitString str CHR '':'' ! i @ '')''))"
  proof (rule vbparams_entry_unparseable)
    show "length (SplitString str CHR '':'') = 3 \<or> length (SplitString str CHR '':'') = 5
               \<or> length (SplitString str CHR '':'') = 8"
      using a by (simp add: v)
    show "1 \<le> i" using a by simp
    show "i < length (SplitString str CHR '':'')" using a by (simp add: v)
    show "ParseInt64 H (SplitString str CHR '':'' ! i) = None" using a by (simp add: v)
    show "\<forall>k. 1 \<le> k \<and> k < i \<longrightarrow> ParseInt64 H (SplitString str CHR '':'' ! k) \<noteq> None"
      using a by (simp add: v)
  qed
  then show "UpdateActivationParametersFromArgs H c [str] =
              Inl (runtime_error (''Invalid ''
                     @ [''nStartTime'', ''nTimeout'', ''nWindowSize'', ''nThresholdStart'',
                        ''nThresholdMin'', ''nFalloffCoeff'', ''nUseEHF''] ! (i - 1)
                     @ '' ('' @ v ! i @ '')''))"
    by (simp only: UpdateActivationParametersFromArgs_single v)
next
  assume a: "(length v = 3 \<or> length v = 5 \<or> length v = 8)
            \<and> (\<forall>k. 1 \<le> k \<and> k < length v \<longrightarrow> ParseInt64 H (v ! k) \<noteq> None)
            \<and> v ! 0 \<notin> set (VersionBitsDeploymentInfo H)"
  have "vbparams_entry H c str =
     Inl (runtime_error (''Invalid deployment ('' @ SplitString str CHR '':'' ! 0 @ '')''))"
  proof (rule vbparams_entry_unknown)
    show "length (SplitString str CHR '':'') = 3 \<or> length (SplitString str CHR '':'') = 5
               \<or> length (SplitString str CHR '':'') = 8"
      using a by (simp add: v)
    show "\<forall>k. 1 \<le> k \<and> k < length (SplitString str CHR '':'') \<longrightarrow>
                  ParseInt64 H (SplitString str CHR '':'' ! k) \<noteq> None"
      using a by (simp add: v)
    show "SplitString str CHR '':'' ! 0 \<notin> set (VersionBitsDeploymentInfo H)"
      using a by (simp add: v)
  qed
  then show "UpdateActivationParametersFromArgs H c [str] =
              Inl (runtime_error (''Invalid deployment ('' @ v ! 0 @ '')''))"
    by (simp only: UpdateActivationParametersFromArgs_single v)
next
  assume a: "length v = 8
            \<and> ParseInt64 H (v ! 1) = Some a1 \<and> ParseInt64 H (v ! 2) = Some a2
            \<and> ParseInt64 H (v ! 3) = Some a3 \<and> ParseInt64 H (v ! 4) = Some a4
            \<and> ParseInt64 H (v ! 5) = Some a5 \<and> ParseInt64 H (v ! 6) = Some a6
            \<and> ParseInt64 H (v ! 7) = Some a7
            \<and> j < length (VersionBitsDeploymentInfo H)
            \<and> VersionBitsDeploymentInfo H ! j = v ! 0
            \<and> (\<forall>k<j. VersionBitsDeploymentInfo H ! k \<noteq> v ! 0)
            \<and> length (vDeployments c) = length (VersionBitsDeploymentInfo H)"
  have "find_deployment (VersionBitsDeploymentInfo H) 0 (v ! 0) = Some (0 + j)"
  proof (rule find_deployment_first)
    show "j < length (VersionBitsDeploymentInfo H)" using a by simp
    show "VersionBitsDeploymentInfo H ! j = v ! 0" using a by simp
    show "\<forall>i<j. VersionBitsDeploymentInfo H ! i \<noteq> v ! 0" using a by simp
  qed
  then have f: "find_deployment (VersionBitsDeploymentInfo H) 0 (SplitString str CHR '':'' ! 0)
                  = Some j"
    by (simp add: v)
  have "vbparams_entry H c str = Inr (UpdateVersionBitsParameters c j a1 a2 a3 a4 a5 a6 a7)"
  proof (rule vbparams_entry_8)
    show "length (SplitString str CHR '':'') = 8" using a by (simp add: v)
    show "ParseInt64 H (SplitString str CHR '':'' ! 1) = Some a1" using a by (simp add: v)
    show "ParseInt64 H (SplitString str CHR '':'' ! 2) = Some a2" using a by (simp add: v)
    show "ParseInt64 H (SplitString str CHR '':'' ! 3) = Some a3" using a by (simp add: v)
    show "ParseInt64 H (SplitString str CHR '':'' ! 4) = Some a4" using a by (simp add: v)
    show "ParseInt64 H (SplitString str CHR '':'' ! 5) = Some a5" using a by (simp add: v)
    show "ParseInt64 H (SplitString str CHR '':'' ! 6) = Some a6" using a by (simp add: v)
    show "ParseInt64 H (SplitString str CHR '':'' ! 7) = Some a7" using a by (simp add: v)
    show "find_deployment (VersionBitsDeploymentInfo H) 0 (SplitString str CHR '':'' ! 0) = Some j"
      by (rule f)
  qed
  then have r: "UpdateActivationParametersFromArgs H c [str]
                  = Inr (UpdateVersionBitsParameters c j a1 a2 a3 a4 a5 a6 a7)"
    by (simp only: UpdateActivationParametersFromArgs_single)
  have jl: "j < length (vDeployments c)" using a by simp
  show "\<exists>c'. UpdateActivationParametersFromArgs H c [str] = Inr c'
               \<and> c' = c\<lparr>vDeployments := vDeployments c'\<rparr>
               \<and> length (vDeployments c') = length (vDeployments c)
               \<and> (\<forall>k<length (vDeployments c). k \<noteq> j \<longrightarrow>
                     vDeployments c' ! k = vDeployments c ! k)
               \<and> vDeployments c' ! j
                   = (vDeployments c ! j)
                       \<lparr>nStartTime := a1, nTimeout := a2,
                        nWindowSize :=
                          (if a3 = -1 then nWindowSize (vDeployments c ! j) else a3),
                        nThresholdStart :=
                          (if a4 = -1 then nThresholdStart (vDeployments c ! j) else a4),
                        nThresholdMin :=
                          (if a5 = -1 then nThresholdMin (vDeployments c ! j) else a5),
                        nFalloffCoeff :=
                          (if a6 = -1 then nFalloffCoeff (vDeployments c ! j) else a6),
                        useEHF := (if a7 = -1 then useEHF (vDeployments c ! j) else a7 > 0)\<rparr>"
    apply (rule exI [where x = "UpdateVersionBitsParameters c j a1 a2 a3 a4 a5 a6 a7"])
    apply (rule conjI [OF r])
    apply (rule UpdateVersionBitsParameters_effect [OF jl])
    done
qed


lemma example_consensus_deployments: "vDeployments example_consensus = example_deployments"
  by (simp add: example_consensus_def)

lemmas vbparams_eval =
  vbparams_entry_def Let_def bind_failure_def parse_field_def example_headers_def
  decimal_ParseInt64_def digit_of_def UpdateVersionBitsParameters_def
  UpdateVersionBitsParameters_slot_def example_consensus_deployments example_deployments_def

theorem C9_vbparams_override_witness:
  "SplitString ''v20:0:100:5'' CHR '':'' = [''v20'', ''0'', ''100'', ''5'']
   \<and> UpdateActivationParametersFromArgs example_headers example_consensus [''v20:0:100:5'']
       = Inl vbparams_malformed
   \<and> UpdateActivationParametersFromArgs example_headers example_consensus [''v20:abc:100'']
       = Inl (runtime_error ''Invalid nStartTime (abc)'')
   \<and> UpdateActivationParametersFromArgs example_headers example_consensus [''nosuch:0:100'']
       = Inl (runtime_error ''Invalid deployment (nosuch)'')
   \<and> UpdateActivationParametersFromArgs example_headers example_consensus
         [''v20:0:100:10:8:6:3:1'']
       = Inr (example_consensus\<lparr>vDeployments :=
           [\<lparr>bit' = 28, nStartTime = 1199145601, nTimeout = 1230767999, nWindowSize = 0,
             nThresholdStart = 0, nThresholdMin = 0, nFalloffCoeff = 0, useEHF = False\<rparr>,
            \<lparr>bit' = 9, nStartTime = 0, nTimeout = 100, nWindowSize = 10,
             nThresholdStart = 8, nThresholdMin = 6, nFalloffCoeff = 3, useEHF = True\<rparr>,
            \<lparr>bit' = 10, nStartTime = 0, nTimeout = 1740787200, nWindowSize = 4032,
             nThresholdStart = 3226, nThresholdMin = 2420, nFalloffCoeff = 5,
             useEHF = True\<rparr>]\<rparr>)"
proof -
  have v: "SplitString ''v20:0:100:5'' CHR '':'' = [''v20'', ''0'', ''100'', ''5'']"
    by simp
  have m: "UpdateActivationParametersFromArgs example_headers example_consensus [''v20:0:100:5'']
       = Inl vbparams_malformed"
    using conjunct1 [OF C9_vbparams_override [OF v, of example_headers example_consensus]]
    by simp
  have u: "UpdateActivationParametersFromArgs example_headers example_consensus [''v20:abc:100'']
       = Inl (runtime_error ''Invalid nStartTime (abc)'')"
    by (simp add: vbparams_eval)
  have n: "UpdateActivationParametersFromArgs example_headers example_consensus [''nosuch:0:100'']
       = Inl (runtime_error ''Invalid deployment (nosuch)'')"
    by (simp add: vbparams_eval)
  have w: "UpdateActivationParametersFromArgs example_headers example_consensus
         [''v20:0:100:10:8:6:3:1'']
       = Inr (example_consensus\<lparr>vDeployments :=
           [\<lparr>bit' = 28, nStartTime = 1199145601, nTimeout = 1230767999, nWindowSize = 0,
             nThresholdStart = 0, nThresholdMin = 0, nFalloffCoeff = 0, useEHF = False\<rparr>,
            \<lparr>bit' = 9, nStartTime = 0, nTimeout = 100, nWindowSize = 10,
             nThresholdStart = 8, nThresholdMin = 6, nFalloffCoeff = 3, useEHF = True\<rparr>,
            \<lparr>bit' = 10, nStartTime = 0, nTimeout = 1740787200, nWindowSize = 4032,
             nThresholdStart = 3226, nThresholdMin = 2420, nFalloffCoeff = 5,
             useEHF = True\<rparr>]\<rparr>)"
    by (simp add: vbparams_eval)
  show ?thesis using v m u n w by simp
qed

text \<open>
  C9 as stated fails for a well-formed string of 8 fields whose optional values are
  -1: start and timeout of the deployment v20 are updated, its window, thresholds,
  falloff coefficient and useEHF keep the values they had.
\<close>

theorem C9_vbparams_override_counterexample:
  "UpdateActivationParametersFromArgs example_headers example_consensus
     [''v20:0:100:-1:-1:-1:-1:-1'']
   = Inr (example_consensus\<lparr>vDeployments :=
       [\<lparr>bit' = 28, nStartTime = 1199145601, nTimeout = 1230767999, nWindowSize = 0,
         nThresholdStart = 0, nThresholdMin = 0, nFalloffCoeff = 0, useEHF = False\<rparr>,
        \<lparr>bit' = 9, nStartTime = 0, nTimeout = 100, nWindowSize = 4032,
         nThresholdStart = 3226, nThresholdMin = 2420, nFalloffCoeff = 5, useEHF = False\<rparr>,
        \<lparr>bit' = 10, nStartTime = 0, nTimeout = 1740787200, nWindowSize = 4032,
         nThresholdStart = 3226, nThresholdMin = 2420, nFalloffCoeff = 5,
         useEHF = True\<rparr>]\<rparr>)"
  by (simp add: vbparams_eval)

end
